theory Spec2Isabelle
  imports Complex_Main "HOL-Library.Char_ord" "HOL-Library.List_Lexorder"
    "HOL-Library.Product_Lexorder"
begin

section \<open>Cells of a data frame\<close>

text \<open>
  The scripts of this repository hold every table as a pandas data frame. A cell of a key
  column or of a raw text column is an integer, a string, or the missing marker NaN.
  A numeric column (rents, conformity rates, population counts) holds numbers or NaN;
  its cells are \<open>real option\<close>, with \<open>None\<close> for NaN. Floating-point numbers are
  idealised as reals.

  A frame is taken as \<open>read_csv\<close> leaves it. \<open>read_csv\<close> reads a column whose fields are
  all integers as an integer column: the fields \<open>1\<close> and \<open>00001\<close> both become the
  integer \<open>1\<close>. A column keeps its fields as text, leading zeros included, when one
  field at least is no number, as in a column of INSEE codes with the Corsican \<open>2A004\<close>.
\<close>

datatype cell = is_CInt: CInt int | is_CStr: CStr string | is_CNaN: CNaN

section \<open>Key Normalizer: \<open>astype(str).str.zfill(5)\<close>\<close>

text \<open>Python's \<open>str\<close> of a non-negative integer: its decimal digits.\<close>

function str_nat :: "nat \<Rightarrow> string" where
  "str_nat n =
     (if n < 10 then [''0123456789'' ! n]
      else str_nat (n div 10) @ [''0123456789'' ! (n mod 10)])"
  by pat_completeness auto
termination
  by (relation "measure id") auto

definition str_int :: "int \<Rightarrow> string" where
  "str_int i = (if i < 0 then CHR ''-'' # str_nat (nat (- i)) else str_nat (nat i))"

text \<open>
  \<open>Series.astype(str)\<close>, cell by cell: an integer becomes its decimal form, a string
  stays, and a missing cell becomes the text \<open>nan\<close>.
\<close>

fun astype_str :: "cell \<Rightarrow> string" where
  "astype_str (CInt i) = str_int i"
| "astype_str (CStr s) = s"
| "astype_str CNaN = ''nan''"

text \<open>
  \<open>str.zfill(width)\<close>: a string of at least \<open>width\<close> characters is returned as it
  is; a shorter one is filled with \<open>0\<close> on the left, after a leading sign if there is one.
\<close>

fun zfill :: "nat \<Rightarrow> string \<Rightarrow> string" where
  "zfill width [] = replicate width CHR ''0''"
| "zfill width (c # s) =
     (if width \<le> length (c # s) then c # s
      else if c = CHR ''+'' \<or> c = CHR ''-''
        then c # replicate (width - length (c # s)) CHR ''0'' @ s
        else replicate (width - length (c # s)) CHR ''0'' @ c # s)"

text \<open>The expression every loader applies to a key column:
  \<open>df[key] = df[key].astype(str).str.zfill(5)\<close>.\<close>

definition normalize_key :: "cell \<Rightarrow> cell" where
  "normalize_key raw = CStr (zfill 5 (astype_str raw))"

section \<open>Conformity Encoder: \<open>lambda x: 1 if x == "C" else 0\<close>\<close>

definition encode :: "cell \<Rightarrow> int" where
  "encode x = (if x = CStr ''C'' then 1 else 0)"


section \<open>The data-frame operations the scripts call\<close>

subsection \<open>\<open>pd.concat(frames, ignore_index=True)\<close>\<close>

text \<open>
  The two errors of pandas the scripts can meet, both a \<open>ValueError\<close>: \<open>pd.concat\<close> of
  an empty list of frames (\<open>No objects to concatenate\<close>), and a merge of a text key
  column with an integer one. Frames without rows concatenate without error.
\<close>

datatype pandas_error = NoObjectsToConcatenate | MergeKeyTypeError

definition pd_concat :: "'r list list \<Rightarrow> pandas_error + 'r list" where
  "pd_concat frames = (if frames = [] then Inl NoObjectsToConcatenate else Inr (concat frames))"

subsection \<open>\<open>groupby(key)[col].mean()\<close>\<close>

text \<open>
  The mean of a numeric column skips missing cells: missing cells count as \<open>0\<close> in the
  total and are left out of the count, and a column without a present cell has the mean
  NaN.
\<close>

definition nanmean :: "real option list \<Rightarrow> real option" where
  "nanmean vs =
     (let count = length (filter (\<lambda>v. v \<noteq> None) vs);
          total = sum_list (map (\<lambda>v. case v of None \<Rightarrow> 0 | Some x \<Rightarrow> x) vs)
      in if count = 0 then None else Some (total / real count))"

text \<open>
  \<open>groupby\<close> drops the rows whose key is missing and yields one group per key that is
  left, the keys in sorted order: integers by value, then strings by code point.
\<close>

fun cell_rank :: "cell \<Rightarrow> nat \<times> int \<times> string" where
  "cell_rank (CInt i) = (0, i, [])"
| "cell_rank (CStr s) = (1, 0, s)"
| "cell_rank CNaN = (2, 0, [])"

definition group_keys :: "cell list \<Rightarrow> cell list" where
  "group_keys ks = sort_key cell_rank (remdups (filter (\<lambda>k. k \<noteq> CNaN) ks))"

definition groupby_mean ::
  "('r \<Rightarrow> cell) \<Rightarrow> ('r \<Rightarrow> real option) \<Rightarrow> 'r list \<Rightarrow> (cell \<times> real option) list" where
  "groupby_mean by col df =
     map (\<lambda>k. (k, nanmean (map col (filter (\<lambda>r. by r = k) df))))
       (group_keys (map by df))"

text \<open>\<open>groupby(key).agg({col1: "mean", col2: "mean"})\<close>.\<close>

definition groupby_mean2 ::
  "('r \<Rightarrow> cell) \<Rightarrow> ('r \<Rightarrow> real option) \<Rightarrow> ('r \<Rightarrow> real option) \<Rightarrow> 'r list
    \<Rightarrow> (cell \<times> real option \<times> real option) list" where
  "groupby_mean2 by col1 col2 df =
     map (\<lambda>k. (k, nanmean (map col1 (filter (\<lambda>r. by r = k) df)),
                 nanmean (map col2 (filter (\<lambda>r. by r = k) df))))
       (group_keys (map by df))"

subsection \<open>\<open>left.merge(right, left_on=..., right_on=..., how="left")\<close>\<close>

text \<open>
  A left join keeps the rows of the left table in their order. A left row is paired with
  every right row of the same key, in the order of the right table; a left row without
  a partner is kept once, with no right row: every column of the right table is missing
  there.
\<close>

definition left_join ::
  "('l \<Rightarrow> cell) \<Rightarrow> ('r \<Rightarrow> cell) \<Rightarrow> 'l list \<Rightarrow> 'r list \<Rightarrow> ('l \<times> 'r option) list" where
  "left_join left_on right_on left right =
     concat (map (\<lambda>l. case filter (\<lambda>r. right_on r = left_on l) right of
                         [] \<Rightarrow> [(l, None)]
                       | ms \<Rightarrow> map (\<lambda>r. (l, Some r)) ms) left)"

text \<open>
  pandas refuses to merge a text key column with an integer one (\<open>ValueError: You are
  trying to merge on object and int64 columns\<close>); a table without rows is never refused.
  An integer cell stands for a cell of an integer column; a key column read as floating
  point is outside the cell type.
\<close>

definition text_keys :: "cell list \<Rightarrow> bool" where
  "text_keys ks = (ks \<noteq> [] \<and> list_all is_CStr ks)"

definition int_keys :: "cell list \<Rightarrow> bool" where
  "int_keys ks = (ks \<noteq> [] \<and> list_all is_CInt ks)"

definition keys_clash :: "cell list \<Rightarrow> cell list \<Rightarrow> bool" where
  "keys_clash left_keys right_keys =
     ((text_keys left_keys \<and> int_keys right_keys) \<or> (int_keys left_keys \<and> text_keys right_keys))"

definition merge_left ::
  "('l \<Rightarrow> cell) \<Rightarrow> ('r \<Rightarrow> cell) \<Rightarrow> 'l list \<Rightarrow> 'r list
    \<Rightarrow> pandas_error + ('l \<times> 'r option) list" where
  "merge_left left_on right_on left right =
     (if keys_clash (map left_on left) (map right_on right)
      then Inl MergeKeyTypeError
      else Inr (left_join left_on right_on left right))"

subsection \<open>\<open>df[columns].dropna().corr()\<close>\<close>

text \<open>
  A row of the selected columns is a list of numeric cells. \<open>dropna\<close> keeps the rows
  without a missing cell. \<open>corr\<close> is the matrix of Pearson coefficients of the columns:
  an entry is NaN when there is no row or when a column of the pair does not vary.
\<close>

definition dropna :: "real option list list \<Rightarrow> real list list" where
  "dropna df = map (map the) (filter (list_all (\<lambda>v. v \<noteq> None)) df)"

definition column :: "nat \<Rightarrow> real list list \<Rightarrow> real list" where
  "column j df = map (\<lambda>row. row ! j) df"

definition mean_of :: "real list \<Rightarrow> real" where
  "mean_of xs = sum_list xs / real (length xs)"

definition ssqd :: "real list \<Rightarrow> real list \<Rightarrow> real" where
  "ssqd xs ys =
     sum_list (map (\<lambda>(x, y). (x - mean_of xs) * (y - mean_of ys)) (zip xs ys))"

definition pearson :: "real list \<Rightarrow> real list \<Rightarrow> real option" where
  "pearson xs ys =
     (if length xs < 1 then None
      else let divisor = sqrt (ssqd xs xs * ssqd ys ys)
           in if divisor \<noteq> 0 then Some (ssqd xs ys / divisor) else None)"

definition corr :: "nat \<Rightarrow> real list list \<Rightarrow> real option list list" where
  "corr ncols df =
     map (\<lambda>i. map (\<lambda>j. pearson (column i df) (column j df)) [0..<ncols]) [0..<ncols]"

section \<open>The tables of the repository\<close>

text \<open>
  A water sample as the water files give it (its conformity columns hold cells of type
  \<open>'c\<close>: raw cells when read), and as \<open>clean_water_data\<close> leaves it, with the two
  encoded columns added. A rent record, a row of the population sheet, and a
  commune of the boundary file, whose other properties (the polygon among them) are
  carried along unread.
\<close>

record 'c water_record =
  inseecommune :: cell
  plvconformitebacterio :: 'c
  plvconformitechimique :: 'c

record clean_water_record = "cell water_record" +
  bacterio_conformity :: int
  chemical_conformity :: int

record rent_record =
  INSEE_C :: cell
  loypredm2 :: "real option"

record pop_record =
  pop_codgeo :: cell
  p21_pop :: "real option"

record 'p geo_record =
  codgeo :: cell
  properties :: 'p

text \<open>An aggregated water row: key, mean bacteriological conformity, mean chemical
  conformity. An aggregated rent row: key, mean rent.\<close>

type_synonym water_agg_row = "cell \<times> real option \<times> real option"

type_synonym rent_agg_row = "cell \<times> real option"

text \<open>
  A row of the merged table: the commune, the aggregated water row and the aggregated rent
  row joined to it (\<open>None\<close>: no partner, the columns of that table are missing in this
  row), and the population row (outer \<open>None\<close>: no population table was merged, the
  column does not exist).
\<close>

record 'p merged_record =
  geo_part :: "'p geo_record"
  water_part :: "water_agg_row option"
  rent_part :: "rent_agg_row option"
  pop_part :: "pop_record option option"

text \<open>The columns of the merged table, read from a row.\<close>

definition col_codgeo :: "'p merged_record \<Rightarrow> cell" where
  "col_codgeo row = codgeo (geo_part row)"

definition col_inseecommune :: "'p merged_record \<Rightarrow> cell" where
  "col_inseecommune row = (case water_part row of None \<Rightarrow> CNaN | Some (k, b, c) \<Rightarrow> k)"

definition col_bacterio_conformity :: "'p merged_record \<Rightarrow> real option" where
  "col_bacterio_conformity row = (case water_part row of None \<Rightarrow> None | Some (k, b, c) \<Rightarrow> b)"

definition col_chemical_conformity :: "'p merged_record \<Rightarrow> real option" where
  "col_chemical_conformity row = (case water_part row of None \<Rightarrow> None | Some (k, b, c) \<Rightarrow> c)"

definition col_INSEE_C :: "'p merged_record \<Rightarrow> cell" where
  "col_INSEE_C row = (case rent_part row of None \<Rightarrow> CNaN | Some (k, m) \<Rightarrow> k)"

definition col_mean_loypredm2 :: "'p merged_record \<Rightarrow> real option" where
  "col_mean_loypredm2 row = (case rent_part row of None \<Rightarrow> None | Some (k, m) \<Rightarrow> m)"

definition col_p21_pop :: "'p merged_record \<Rightarrow> real option" where
  "col_p21_pop row = (case pop_part row of Some (Some p) \<Rightarrow> p21_pop p | _ \<Rightarrow> None)"

section \<open>\<open>final.py\<close>: class \<open>DataProcessor\<close>\<close>

text \<open>
  Each method is a function from the fields it reads to the field it assigns; a loader
  takes the frames its files were read into. The second class of \<open>population_merge.py\<close>
  has the same methods, line for line.
\<close>

definition load_water_data ::
  "'c water_record list list \<Rightarrow> pandas_error + 'c water_record list" where
  "load_water_data water_files = pd_concat water_files"

definition clean_water_data :: "cell water_record list \<Rightarrow> clean_water_record list" where
  "clean_water_data water_data =
     map (\<lambda>r. \<lparr> inseecommune = normalize_key (inseecommune r),
                plvconformitebacterio = plvconformitebacterio r,
                plvconformitechimique = plvconformitechimique r,
                bacterio_conformity = encode (plvconformitebacterio r),
                chemical_conformity = encode (plvconformitechimique r) \<rparr>) water_data"

definition load_geo_data :: "'p geo_record list \<Rightarrow> 'p geo_record list" where
  "load_geo_data geojson = map (\<lambda>g. g\<lparr> codgeo := normalize_key (codgeo g) \<rparr>) geojson"

definition load_rent_data :: "rent_record list list \<Rightarrow> pandas_error + rent_agg_row list" where
  "load_rent_data rent_files =
     (case pd_concat rent_files of
        Inl e \<Rightarrow> Inl e
      | Inr concatenated \<Rightarrow> Inr (groupby_mean INSEE_C loypredm2 concatenated))"

definition load_population_data :: "pop_record list option \<Rightarrow> pop_record list option" where
  "load_population_data pop_file =
     (case pop_file of
        None \<Rightarrow> None
      | Some sheet \<Rightarrow> Some (map (\<lambda>p. p\<lparr> pop_codgeo := normalize_key (pop_codgeo p) \<rparr>) sheet))"

definition aggregate_water :: "clean_water_record list \<Rightarrow> water_agg_row list" where
  "aggregate_water water_data =
     groupby_mean2 inseecommune
       (\<lambda>r. Some (real_of_int (bacterio_conformity r)))
       (\<lambda>r. Some (real_of_int (chemical_conformity r))) water_data"

definition merge_data ::
  "'p geo_record list \<Rightarrow> clean_water_record list \<Rightarrow> rent_agg_row list \<Rightarrow> pop_record list option
    \<Rightarrow> pandas_error + 'p merged_record list" where
  "merge_data geo_data water_data rent_data pop_data =
     (case merge_left codgeo fst geo_data (aggregate_water water_data) of
        Inl e \<Rightarrow> Inl e
      | Inr geo1 \<Rightarrow>
     (case merge_left (\<lambda>(g, w). codgeo g) fst geo1 rent_data of
        Inl e \<Rightarrow> Inl e
      | Inr geo2 \<Rightarrow>
     (case pop_data of
        None \<Rightarrow>
          Inr (map (\<lambda>((g, w), r).
                 \<lparr> geo_part = g, water_part = w, rent_part = r, pop_part = None \<rparr>) geo2)
      | Some pop \<Rightarrow>
     (case merge_left (\<lambda>((g, w), r). codgeo g) pop_codgeo geo2 pop of
        Inl e \<Rightarrow> Inl e
      | Inr geo3 \<Rightarrow>
          Inr (map (\<lambda>(((g, w), r), p).
                 \<lparr> geo_part = g, water_part = w, rent_part = r, pop_part = Some p \<rparr>) geo3)))))"

text \<open>The main block: load and clean the water files, load the boundary file, the rent
  files and the population sheet, merge.\<close>

definition final_main ::
  "cell water_record list list \<Rightarrow> 'p geo_record list \<Rightarrow> rent_record list list
    \<Rightarrow> pop_record list option \<Rightarrow> pandas_error + 'p merged_record list" where
  "final_main water_files geojson rent_files pop_file =
     (case load_water_data water_files of
        Inl e \<Rightarrow> Inl e
      | Inr water_data \<Rightarrow>
     (case load_rent_data rent_files of
        Inl e \<Rightarrow> Inl e
      | Inr rent_data \<Rightarrow>
          merge_data (load_geo_data geojson) (clean_water_data water_data) rent_data
            (load_population_data pop_file)))"

text \<open>\<open>plot_correlation_heatmap\<close>: the matrix it draws. The population column is
  selected when a population table was loaded.\<close>

definition heatmap_columns :: "bool \<Rightarrow> 'p merged_record \<Rightarrow> real option list" where
  "heatmap_columns with_pop row =
     [col_bacterio_conformity row, col_chemical_conformity row, col_mean_loypredm2 row]
       @ (if with_pop then [col_p21_pop row] else [])"

definition plot_correlation_heatmap ::
  "bool \<Rightarrow> 'p merged_record list \<Rightarrow> real option list list" where
  "plot_correlation_heatmap with_pop geo_data =
     corr (if with_pop then 4 else 3) (dropna (map (heatmap_columns with_pop) geo_data))"

section \<open>\<open>eau_merge.py\<close>: class \<open>DataProcessor\<close>\<close>

text \<open>
  \<open>load_water_data\<close>, \<open>clean_water_data\<close> and \<open>load_geo_data\<close> are those of
  \<open>final.py\<close>. The rent frame is handed in as it was read and \<open>merge_data\<close> aggregates
  it itself. The first class of \<open>population_merge.py\<close> adds the population merge of
  \<open>final.py\<close> to this one.
\<close>

definition eau_merge_merge_data ::
  "'p geo_record list \<Rightarrow> clean_water_record list \<Rightarrow> rent_record list
    \<Rightarrow> pandas_error + 'p merged_record list" where
  "eau_merge_merge_data geo_data water_data rent_data =
     (case merge_left codgeo fst geo_data (aggregate_water water_data) of
        Inl e \<Rightarrow> Inl e
      | Inr geo1 \<Rightarrow>
     (case merge_left (\<lambda>(g, w). codgeo g) fst geo1
             (groupby_mean INSEE_C loypredm2 rent_data) of
        Inl e \<Rightarrow> Inl e
      | Inr geo2 \<Rightarrow>
          Inr (map (\<lambda>((g, w), r).
                 \<lparr> geo_part = g, water_part = w, rent_part = r, pop_part = None \<rparr>) geo2)))"

definition analyze_correlation :: "'p merged_record list \<Rightarrow> real option list list" where
  "analyze_correlation geo_data =
     corr 3 (dropna (map (\<lambda>row. [col_bacterio_conformity row, col_chemical_conformity row,
                                    col_mean_loypredm2 row]) geo_data))"

section \<open>\<open>am.py\<close>: class \<open>RentDataProcessor\<close>\<close>

definition am_load_rent_data :: "rent_record list list \<Rightarrow> pandas_error + rent_record list" where
  "am_load_rent_data rent_files = pd_concat rent_files"

definition preprocess_data ::
  "'p geo_record list \<Rightarrow> rent_record list list
    \<Rightarrow> pandas_error + ('p geo_record \<times> rent_agg_row option) list" where
  "preprocess_data geojson rent_files =
     (let geo_data = load_geo_data geojson
      in case am_load_rent_data rent_files of
           Inl e \<Rightarrow> Inl e
         | Inr loaded \<Rightarrow>
             (let rent_data = map (\<lambda>r. r\<lparr> INSEE_C := normalize_key (INSEE_C r) \<rparr>) loaded;
                  rent_avg = groupby_mean INSEE_C loypredm2 rent_data
              in merge_left codgeo fst geo_data rent_avg))"

section \<open>\<open>eau.py\<close>: class \<open>WaterQualityProcessor\<close>\<close>

text \<open>
  \<open>pd.to_numeric(column, errors="coerce")\<close>: a number stays, a missing cell stays missing,
  and a text cell becomes the number it spells, or NaN when it spells none. Every numeric
  spelling holds a digit or is an infinity (\<open>inf\<close>, \<open>Infinity\<close>), so a text without
  a digit and without the letter \<open>i\<close> becomes NaN; for the other texts the parser of
  pandas is the parameter \<open>parse\<close>.
\<close>

definition to_numeric_coerce :: "(string \<Rightarrow> real option) \<Rightarrow> cell \<Rightarrow> real option" where
  "to_numeric_coerce parse x =
     (case x of
        CInt i \<Rightarrow> Some (real_of_int i)
      | CNaN \<Rightarrow> None
      | CStr s \<Rightarrow> if list_ex (\<lambda>c. c \<in> set ''0123456789iI'') s then parse s else None)"

definition load_files :: "'c water_record list list \<Rightarrow> pandas_error + 'c water_record list" where
  "load_files files = pd_concat files"

definition clean_data ::
  "(string \<Rightarrow> real option) \<Rightarrow> cell water_record list \<Rightarrow> real option water_record list" where
  "clean_data parse data =
     map (\<lambda>r. \<lparr> inseecommune = normalize_key (inseecommune r),
                plvconformitebacterio = to_numeric_coerce parse (plvconformitebacterio r),
                plvconformitechimique = to_numeric_coerce parse (plvconformitechimique r) \<rparr>) data"

text \<open>The result's columns are renamed \<open>bacterio_conformity\<close> and
  \<open>chemical_conformity\<close>.\<close>

definition aggregate_by_commune :: "real option water_record list \<Rightarrow> water_agg_row list" where
  "aggregate_by_commune data =
     groupby_mean2 inseecommune plvconformitebacterio plvconformitechimique data"

definition merge_with_geo_data ::
  "real option water_record list \<Rightarrow> 'p geo_record list
    \<Rightarrow> pandas_error + ('p geo_record \<times> water_agg_row option) list" where
  "merge_with_geo_data data geo_data =
     merge_left codgeo fst geo_data (aggregate_by_commune data)"

text \<open>The script: load and clean the water files, read the boundary file (its
  \<open>codgeo\<close> is used as read), merge.\<close>

definition eau_main ::
  "(string \<Rightarrow> real option) \<Rightarrow> cell water_record list list \<Rightarrow> 'p geo_record list
    \<Rightarrow> pandas_error + ('p geo_record \<times> water_agg_row option) list" where
  "eau_main parse files communes_geo =
     (case load_files files of
        Inl e \<Rightarrow> Inl e
      | Inr data \<Rightarrow> merge_with_geo_data (clean_data parse data) communes_geo)"

section \<open>\<open>mysql_database.py\<close>: class \<open>MySQLWaterRentProcessor\<close>\<close>

text \<open>
  \<open>load_rent_data\<close> and \<open>load_water_data\<close> prepare the frames they write to the tables
  \<open>rent_data\<close> (\<open>insee_c\<close>, \<open>mean_loypredm2\<close>) and \<open>water_data\<close>.
\<close>

definition mysql_load_rent_data :: "rent_record list list \<Rightarrow> pandas_error + rent_agg_row list" where
  "mysql_load_rent_data rent_files =
     (case pd_concat rent_files of
        Inl e \<Rightarrow> Inl e
      | Inr combined_data \<Rightarrow>
          Inr (groupby_mean INSEE_C loypredm2
                 (map (\<lambda>r. r\<lparr> INSEE_C := normalize_key (INSEE_C r) \<rparr>) combined_data)))"






fun sql_groups :: "('k \<Rightarrow> 'k \<Rightarrow> bool) \<Rightarrow> 'k list \<Rightarrow> 'k list" where
  "sql_groups same [] = []"
| "sql_groups same (k # ks) = k # sql_groups same (filter (\<lambda>k'. \<not> same k' k) ks)"







section \<open>The end-to-end scenario of the specification\<close>

text \<open>
  Three communes \<open>00001\<close>, \<open>00002\<close>, \<open>00003\<close> in the boundary file, whose codes are
  strings; a water file with samples for the keys \<open>1\<close> (bacteriological conformity
  \<open>C\<close>) and \<open>2\<close> (\<open>N\<close>); a rent file with two records for \<open>00001\<close>, of \<open>10.0\<close> and
  \<open>12.0\<close>. The key columns of the two files hold integers only, so \<open>read_csv\<close> reads
  them as integer columns: the rent keys are the integer \<open>1\<close>. The scenario fixes neither
  the chemical conformity cells nor the other properties of the communes: they are
  parameters.
\<close>

definition scenario_water :: "cell \<Rightarrow> cell \<Rightarrow> cell water_record list" where
  "scenario_water chem1 chem2 =
     [\<lparr> inseecommune = CInt 1, plvconformitebacterio = CStr ''C'',
        plvconformitechimique = chem1 \<rparr>,
      \<lparr> inseecommune = CInt 2, plvconformitebacterio = CStr ''N'',
        plvconformitechimique = chem2 \<rparr>]"

definition scenario_geo :: "'p \<Rightarrow> 'p \<Rightarrow> 'p \<Rightarrow> 'p geo_record list" where
  "scenario_geo p1 p2 p3 =
     [\<lparr> codgeo = CStr ''00001'', properties = p1 \<rparr>,
      \<lparr> codgeo = CStr ''00002'', properties = p2 \<rparr>,
      \<lparr> codgeo = CStr ''00003'', properties = p3 \<rparr>]"

definition scenario_rent :: "rent_record list" where
  "scenario_rent =
     [\<lparr> INSEE_C = CInt 1, loypredm2 = Some 10 \<rparr>,
      \<lparr> INSEE_C = CInt 1, loypredm2 = Some 12 \<rparr>]"

section \<open>The specification's words\<close>

text \<open>
  The specification of the Commune Aggregator: the arithmetic mean over the present
  (non-missing) values only; a group with no present value yields a missing result. This
  definition follows the specification, not the code; the aggregators of the code are
  compared with it.
\<close>

definition mean_of_present :: "real option list \<Rightarrow> real option" where
  "mean_of_present vs =
     (let present = map the (filter (\<lambda>v. v \<noteq> None) vs)
      in if present = [] then None else Some (sum_list present / real (length present)))"


section \<open>Example files\<close>

text \<open>
  A boundary file with four communes; a water file whose key column holds the integers
  \<open>1001\<close> and \<open>1002\<close>; a rent file whose key column is text, since it holds the Corsican
  code \<open>2A004\<close>, with two records for \<open>01001\<close> and one for \<open>2A004\<close>. Commune \<open>01003\<close>
  has neither water samples nor rents, commune \<open>2A004\<close> no water sample.
\<close>

definition example_geo :: "unit geo_record list" where
  "example_geo =
     [\<lparr> codgeo = CStr ''01001'', properties = () \<rparr>,
      \<lparr> codgeo = CStr ''01002'', properties = () \<rparr>,
      \<lparr> codgeo = CStr ''01003'', properties = () \<rparr>,
      \<lparr> codgeo = CStr ''2A004'', properties = () \<rparr>]"

definition example_water :: "cell water_record list" where
  "example_water =
     [\<lparr> inseecommune = CInt 1001, plvconformitebacterio = CStr ''C'',
        plvconformitechimique = CNaN \<rparr>,
      \<lparr> inseecommune = CInt 1002, plvconformitebacterio = CStr ''N'',
        plvconformitechimique = CStr ''C'' \<rparr>]"

definition example_rent :: "rent_record list" where
  "example_rent =
     [\<lparr> INSEE_C = CStr ''01001'', loypredm2 = Some 10 \<rparr>,
      \<lparr> INSEE_C = CStr ''01001'', loypredm2 = Some 12 \<rparr>,
      \<lparr> INSEE_C = CStr ''2A004'', loypredm2 = Some 8 \<rparr>]"

text \<open>
  Variants of the files, each as \<open>read_csv\<close> yields it. A rent file that writes the code
  of the first commune without its leading zero; the column is text because of
  \<open>2A004\<close>. A rent file that writes this code in both ways and has records without a
  rent. A water file with three samples of one commune. A water file whose key column is
  text and writes the code of one Corsican commune in two cases.
\<close>

definition example_rent_short :: "rent_record list" where
  "example_rent_short =
     [\<lparr> INSEE_C = CStr ''1001'', loypredm2 = Some 10 \<rparr>,
      \<lparr> INSEE_C = CStr ''2A004'', loypredm2 = Some 8 \<rparr>]"

definition example_rent_spellings :: "rent_record list" where
  "example_rent_spellings =
     [\<lparr> INSEE_C = CStr ''1001'', loypredm2 = Some 10 \<rparr>,
      \<lparr> INSEE_C = CStr ''01001'', loypredm2 = Some 12 \<rparr>,
      \<lparr> INSEE_C = CStr ''01001'', loypredm2 = None \<rparr>,
      \<lparr> INSEE_C = CStr ''2A004'', loypredm2 = None \<rparr>]"



text \<open>A merged table for the correlation analysis: three communes with every indicator
  present and one commune without indicators.\<close>

definition example_merged :: "unit merged_record list" where
  "example_merged =
     [\<lparr> geo_part = \<lparr> codgeo = CStr ''01001'', properties = () \<rparr>,
        water_part = Some (CStr ''01001'', Some 1, Some 0),
        rent_part = Some (CStr ''01001'', Some 10), pop_part = None \<rparr>,
      \<lparr> geo_part = \<lparr> codgeo = CStr ''01002'', properties = () \<rparr>,
        water_part = Some (CStr ''01002'', Some 0, Some 1),
        rent_part = Some (CStr ''01002'', Some 12), pop_part = None \<rparr>,
      \<lparr> geo_part = \<lparr> codgeo = CStr ''01003'', properties = () \<rparr>,
        water_part = None, rent_part = None, pop_part = None \<rparr>,
      \<lparr> geo_part = \<lparr> codgeo = CStr ''2A004'', properties = () \<rparr>,
        water_part = Some (CStr ''2A004'', Some 1, Some 1),
        rent_part = Some (CStr ''2A004'', Some 14), pop_part = None \<rparr>]"

section \<open>Grouping and joining: general facts\<close>

lemma set_group_keys: "set (group_keys ks) = set ks - {CNaN}"
  by (auto simp: group_keys_def)

lemma distinct_group_keys: "distinct (group_keys ks)"
  by (simp add: group_keys_def)

lemma keys_groupby_mean: "map fst (groupby_mean by col df) = group_keys (map by df)"
  by (simp add: groupby_mean_def comp_def)

lemma keys_groupby_mean2: "map fst (groupby_mean2 by col1 col2 df) = group_keys (map by df)"
  by (simp add: groupby_mean2_def comp_def)

lemma distinct_groupby_mean: "distinct (map fst (groupby_mean by col df))"
  by (simp add: keys_groupby_mean distinct_group_keys)

lemma distinct_groupby_mean2: "distinct (map fst (groupby_mean2 by col1 col2 df))"
  by (simp add: keys_groupby_mean2 distinct_group_keys)

lemma filter_distinct_key:
  "distinct (map f xs) \<Longrightarrow>
   filter (\<lambda>x. f x = k) xs = (case find (\<lambda>x. f x = k) xs of None \<Rightarrow> [] | Some x \<Rightarrow> [x])"
proof (induction xs)
  case Nil
  then show ?case by simp
next
  case (Cons a xs)
  have "filter (\<lambda>x. f x = k) xs = []" if "f a = k"
  proof -
    have "f a \<notin> f ` set xs" using Cons.prems by simp
    then have "\<forall>x\<in>set xs. f x \<noteq> k" using that by blast
    then show ?thesis by (simp add: filter_empty_conv)
  qed
  with Cons show ?case by simp
qed

lemma partners_singleton:
  assumes "distinct (map right_on right)"
  shows "(case filter (\<lambda>r. right_on r = k) right of
            [] \<Rightarrow> [(l, None)] | ms \<Rightarrow> map (\<lambda>r. (l, Some r)) ms)
         = [(l, find (\<lambda>r. right_on r = k) right)]"
  by (simp add: filter_distinct_key [OF assms] split: option.split)

lemma left_join_distinct:
  assumes "distinct (map right_on right)"
  shows "left_join left_on right_on left right
         = map (\<lambda>l. (l, find (\<lambda>r. right_on r = left_on l) right)) left"
  unfolding left_join_def by (induction left) (simp_all add: partners_singleton [OF assms])

lemma set_partners:
  "set (case filter P right of [] \<Rightarrow> [(l, None)] | ms \<Rightarrow> map (\<lambda>r. (l, Some r)) ms)
   = (if filter P right = [] then {(l, None)} else (\<lambda>r. (l, Some r)) ` set (filter P right))"
  by (cases "filter P right") simp_all

lemma left_join_member:
  "(l, x) \<in> set (left_join left_on right_on left right) \<longleftrightarrow>
     l \<in> set left \<and>
     (case x of None \<Rightarrow> filter (\<lambda>r. right_on r = left_on l) right = []
              | Some r \<Rightarrow> r \<in> set right \<and> right_on r = left_on l)"
proof (induction left)
  case Nil
  show ?case by (simp add: left_join_def)
next
  case (Cons a left)
  have step: "left_join left_on right_on (a # left) right
      = (case filter (\<lambda>r. right_on r = left_on a) right of
           [] \<Rightarrow> [(a, None)] | ms \<Rightarrow> map (\<lambda>r. (a, Some r)) ms)
        @ left_join left_on right_on left right"
    by (simp add: left_join_def)
  have here: "(l, x) \<in> set (case filter (\<lambda>r. right_on r = left_on a) right of
           [] \<Rightarrow> [(a, None)] | ms \<Rightarrow> map (\<lambda>r. (a, Some r)) ms) \<longleftrightarrow>
      l = a \<and> (case x of None \<Rightarrow> filter (\<lambda>r. right_on r = left_on l) right = []
              | Some r \<Rightarrow> r \<in> set right \<and> right_on r = left_on l)"
    unfolding set_partners by (cases x) (auto simp: filter_empty_conv)
  show ?case
    unfolding step set_append Un_iff Cons.IH here by auto
qed

lemma length_left_join:
  "distinct (map right_on right) \<Longrightarrow> length (left_join left_on right_on left right) = length left"
  by (simp add: left_join_distinct)

lemma fst_left_join:
  "distinct (map right_on right) \<Longrightarrow> map fst (left_join left_on right_on left right) = left"
  by (simp add: left_join_distinct comp_def)


section \<open>Merging onto tables with one row per key\<close>

lemma merge_left_distinct:
  assumes "distinct (map right_on right)"
  shows "merge_left left_on right_on left right
         = (if keys_clash (map left_on left) (map right_on right) then Inl MergeKeyTypeError
            else Inr (map (\<lambda>l. (l, find (\<lambda>r. right_on r = left_on l) right)) left))"
  by (simp add: merge_left_def left_join_distinct [OF assms])

lemma merge_left_Inr:
  "merge_left left_on right_on left right = Inr t \<Longrightarrow> t = left_join left_on right_on left right"
  by (simp add: merge_left_def split: if_splits)

lemma join_twice:
  assumes "distinct (map key1 I1)" and "distinct (map key2 I2)"
  shows "map_sum id (map (\<lambda>((g, a), b). (g, a, b)))
           (case merge_left codgeo key1 G I1 of
              Inl e \<Rightarrow> Inl e
            | Inr t \<Rightarrow> merge_left (\<lambda>(g, a). codgeo g) key2 t I2)
         = (if keys_clash (map codgeo G) (map key1 I1) \<or> keys_clash (map codgeo G) (map key2 I2)
            then Inl MergeKeyTypeError
            else Inr (map (\<lambda>g. (g, find (\<lambda>r. key1 r = codgeo g) I1,
                                   find (\<lambda>r. key2 r = codgeo g) I2)) G))"
  by (simp add: merge_left_distinct [OF assms(1)] merge_left_distinct [OF assms(2)] comp_def)


section \<open>The merged table of \<open>final.py\<close>, row by row\<close>

lemma find_keyed:
  "find (\<lambda>w. fst w = k) (map (\<lambda>k. (k, f k)) ks) = (if k \<in> set ks then Some (k, f k) else None)"
  by (induction ks) auto

lemma find_groupby_mean:
  "find (\<lambda>w. fst w = k) (groupby_mean by col df)
   = (if k \<in> set (group_keys (map by df))
      then Some (k, nanmean (map col (filter (\<lambda>r. by r = k) df))) else None)"
  unfolding groupby_mean_def by (rule find_keyed)

lemma find_groupby_mean2:
  "find (\<lambda>w. fst w = k) (groupby_mean2 by col1 col2 df)
   = (if k \<in> set (group_keys (map by df))
      then Some (k, nanmean (map col1 (filter (\<lambda>r. by r = k) df)),
                    nanmean (map col2 (filter (\<lambda>r. by r = k) df))) else None)"
  unfolding groupby_mean2_def by (rule find_keyed)

lemma distinct_aggregate_water: "distinct (map fst (aggregate_water water_data))"
  by (simp add: aggregate_water_def distinct_groupby_mean2)

lemma load_rent_data_Inr:
  "load_rent_data rent_files = Inr rent_data \<longleftrightarrow>
     rent_files \<noteq> [] \<and> rent_data = groupby_mean INSEE_C loypredm2 (concat rent_files)"
  by (auto simp: load_rent_data_def pd_concat_def)

lemma distinct_load_rent_data:
  "load_rent_data rent_files = Inr rent_data \<Longrightarrow> distinct (map fst rent_data)"
  by (simp add: load_rent_data_Inr distinct_groupby_mean)

lemma merge_data_without_population:
  assumes "distinct (map fst rent_data)"
    and "merge_data geo_data water_data rent_data None = Inr merged"
  shows "merged = map (\<lambda>g. \<lparr> geo_part = g,
                 water_part = find (\<lambda>w. fst w = codgeo g) (aggregate_water water_data),
                 rent_part = find (\<lambda>r. fst r = codgeo g) rent_data,
                 pop_part = None \<rparr>) geo_data"
  using assms(2)
  by (simp add: merge_data_def merge_left_distinct [OF distinct_aggregate_water]
      merge_left_distinct [OF assms(1)] comp_def split: if_splits)

lemma find_None_key: "find (\<lambda>w. f w = k) xs = None \<longleftrightarrow> k \<notin> f ` set xs"
  by (auto simp: find_None_iff)

lemma keys_aggregate_water:
  "fst ` set (aggregate_water water_data) = inseecommune ` set water_data - {CNaN}"
  using arg_cong [OF keys_groupby_mean2, of set]
  by (simp add: aggregate_water_def set_group_keys)


section \<open>The water part of a merged row\<close>

lemma merge_data_water_part:
  assumes "merge_data geo_data water_data rent_data pop_data = Inr merged"
    and "row \<in> set merged"
  shows "water_part row = find (\<lambda>w. fst w = col_codgeo row) (aggregate_water water_data)"
proof -
  define geo1 where "geo1 = map (\<lambda>g. (g, find (\<lambda>w. fst w = codgeo g) (aggregate_water water_data))) geo_data"
  define geo2 where "geo2 = left_join (\<lambda>(g, w). codgeo g) fst geo1 rent_data"
  have m1: "merge_left codgeo fst geo_data (aggregate_water water_data) = Inr geo1"
    using assms(1)
    by (simp add: merge_data_def geo1_def merge_left_distinct [OF distinct_aggregate_water]
        split: if_splits)
  have m2: "merge_left (\<lambda>(g, w). codgeo g) fst geo1 rent_data = Inr geo2"
    using assms(1) unfolding merge_data_def m1 geo2_def
    by (simp add: merge_left_def split: if_splits)
  have in2: "w = find (\<lambda>x. fst x = codgeo g) (aggregate_water water_data)"
    if "((g, w), r) \<in> set geo2" for g w r
  proof -
    from that have "(g, w) \<in> set geo1"
      unfolding geo2_def left_join_member by simp
    then show ?thesis unfolding geo1_def by auto
  qed
  show ?thesis
  proof (cases pop_data)
    case None
    with assms(1) have "merged = map (\<lambda>((g, w), r).
        \<lparr> geo_part = g, water_part = w, rent_part = r, pop_part = None \<rparr>) geo2"
      by (simp add: merge_data_def m1 m2)
    with assms(2) obtain g w r where "((g, w), r) \<in> set geo2"
      and "row = \<lparr> geo_part = g, water_part = w, rent_part = r, pop_part = None \<rparr>"
      by auto
    then show ?thesis using in2 by (simp add: col_codgeo_def)
  next
    case (Some pop)
    with assms(1) have "merged = map (\<lambda>(((g, w), r), p).
        \<lparr> geo_part = g, water_part = w, rent_part = r, pop_part = Some p \<rparr>)
        (left_join (\<lambda>((g, w), r). codgeo g) pop_codgeo geo2 pop)"
      by (simp add: merge_data_def m1 m2) (simp add: merge_left_def split: if_splits)
    with assms(2) obtain g w r p
      where "(((g, w), r), p) \<in> set (left_join (\<lambda>((g, w), r). codgeo g) pop_codgeo geo2 pop)"
      and row: "row = \<lparr> geo_part = g, water_part = w, rent_part = r, pop_part = Some p \<rparr>"
      by auto
    then have "((g, w), r) \<in> set geo2"
      unfolding left_join_member by simp
    then show ?thesis using in2 row by (simp add: col_codgeo_def)
  qed
qed

lemma nanmean_all_present:
  assumes "vs \<noteq> []"
  shows "nanmean (map (\<lambda>v. Some (f v)) vs) = Some (sum_list (map f vs) / real (length vs))"
  using assms by (simp add: nanmean_def comp_def)

lemma sum_encode:
  "sum_list (map (\<lambda>s. real_of_int (encode (col s))) samples)
   = real (length (filter (\<lambda>s. col s = CStr ''C'') samples))"
  by (induction samples) (simp_all add: encode_def)

lemma inseecommune_clean_water_data:
  "filter (\<lambda>r. inseecommune r = k) (clean_water_data water_data)
   = clean_water_data (filter (\<lambda>s. normalize_key (inseecommune s) = k) water_data)"
  by (simp add: clean_water_data_def filter_map comp_def)

lemma is_CStr_normalize_key: "normalize_key raw \<noteq> CNaN"
  by (simp add: normalize_key_def)


section \<open>The scenario, evaluated\<close>


lemma encode_C: "encode (CStr ''C'') = 1" and encode_N: "encode (CStr ''N'') = 0"
  and encode_NaN: "encode CNaN = 0" and encode_empty: "encode (CStr '''') = 0"
  by (simp_all add: encode_def)

lemma scenario_keys:
  "normalize_key (CInt 1) = CStr ''00001''"
  "normalize_key (CInt 2) = CStr ''00002''"
  "normalize_key (CStr ''00001'') = CStr ''00001''"
  "normalize_key (CStr ''00002'') = CStr ''00002''"
  "normalize_key (CStr ''00003'') = CStr ''00003''"
  by code_simp+

lemma scenario_clean_water:
  "clean_water_data (scenario_water chem1 chem2)
   = [\<lparr> inseecommune = CStr ''00001'', plvconformitebacterio = CStr ''C'',
        plvconformitechimique = chem1, bacterio_conformity = 1,
        chemical_conformity = encode chem1 \<rparr>,
      \<lparr> inseecommune = CStr ''00002'', plvconformitebacterio = CStr ''N'',
        plvconformitechimique = chem2, bacterio_conformity = 0,
        chemical_conformity = encode chem2 \<rparr>]"
  by (simp add: clean_water_data_def scenario_water_def scenario_keys encode_C encode_N)

lemma scenario_group_keys:
  "group_keys [CStr ''00001'', CStr ''00002''] = [CStr ''00001'', CStr ''00002'']"
  "group_keys [CStr ''00001'', CStr ''00001''] = [CStr ''00001'']"
  "group_keys [CInt 1, CInt 1] = [CInt 1]"
  by code_simp+

lemma scenario_aggregate_water:
  "aggregate_water (clean_water_data (scenario_water chem1 chem2))
   = [(CStr ''00001'', Some 1, Some (real_of_int (encode chem1))),
      (CStr ''00002'', Some 0, Some (real_of_int (encode chem2)))]"
  by (simp add: scenario_clean_water aggregate_water_def groupby_mean2_def scenario_group_keys
      nanmean_def)

lemma scenario_load_rent: "load_rent_data [scenario_rent] = Inr [(CInt 1, Some 11)]"
  by (simp add: load_rent_data_def pd_concat_def scenario_rent_def groupby_mean_def
      scenario_group_keys nanmean_def)

lemma scenario_mysql_rent: "mysql_load_rent_data [scenario_rent] = Inr [(CStr ''00001'', Some 11)]"
  by (simp add: mysql_load_rent_data_def pd_concat_def scenario_rent_def scenario_keys
      groupby_mean_def scenario_group_keys nanmean_def)

lemma scenario_load_geo: "load_geo_data (scenario_geo p1 p2 p3) = scenario_geo p1 p2 p3"
  by (simp add: load_geo_data_def scenario_geo_def scenario_keys)

lemma scenario_final_main:
  "final_main [scenario_water chem1 chem2] (scenario_geo p1 p2 p3) [scenario_rent] None
   = Inl MergeKeyTypeError"
proof -
  have "final_main [scenario_water chem1 chem2] (scenario_geo p1 p2 p3) [scenario_rent] None
      = merge_data (scenario_geo p1 p2 p3) (clean_water_data (scenario_water chem1 chem2))
          [(CInt 1, Some 11)] None"
    by (simp add: final_main_def load_water_data_def pd_concat_def scenario_load_rent
        scenario_load_geo load_population_data_def)
  also have "\<dots> = Inl MergeKeyTypeError"
    unfolding merge_data_def scenario_aggregate_water
    by (simp add: merge_left_def keys_clash_def text_keys_def int_keys_def left_join_def
        scenario_geo_def)
  finally show ?thesis .
qed

lemma scenario_preprocess_data:
  "preprocess_data (scenario_geo p1 p2 p3) [scenario_rent]
   = Inr [(\<lparr> codgeo = CStr ''00001'', properties = p1 \<rparr>, Some (CStr ''00001'', Some 11)),
          (\<lparr> codgeo = CStr ''00002'', properties = p2 \<rparr>, None),
          (\<lparr> codgeo = CStr ''00003'', properties = p3 \<rparr>, None)]"
  unfolding preprocess_data_def scenario_load_geo
  by (simp add: am_load_rent_data_def pd_concat_def scenario_rent_def scenario_keys
      groupby_mean_def scenario_group_keys nanmean_def merge_left_def keys_clash_def
      text_keys_def int_keys_def left_join_def scenario_geo_def)

lemma scenario_merge_data_normalized:
  "merge_data (load_geo_data (scenario_geo p1 p2 p3))
     (clean_water_data (scenario_water chem1 chem2)) [(CStr ''00001'', Some 11)] None
   = Inr [\<lparr> geo_part = \<lparr> codgeo = CStr ''00001'', properties = p1 \<rparr>,
             water_part = Some (CStr ''00001'', Some 1, Some (real_of_int (encode chem1))),
             rent_part = Some (CStr ''00001'', Some 11), pop_part = None \<rparr>,
          \<lparr> geo_part = \<lparr> codgeo = CStr ''00002'', properties = p2 \<rparr>,
             water_part = Some (CStr ''00002'', Some 0, Some (real_of_int (encode chem2))),
             rent_part = None, pop_part = None \<rparr>,
          \<lparr> geo_part = \<lparr> codgeo = CStr ''00003'', properties = p3 \<rparr>,
             water_part = None, rent_part = None, pop_part = None \<rparr>]"
  unfolding merge_data_def scenario_load_geo scenario_aggregate_water
  by (simp add: merge_left_def keys_clash_def text_keys_def int_keys_def left_join_def
      scenario_geo_def)

section \<open>Aggregation: general facts\<close>


lemma total_present:
  "sum_list (map (\<lambda>v. case v of None \<Rightarrow> 0 | Some x \<Rightarrow> x) vs)
   = sum_list (map the (filter (\<lambda>v. v \<noteq> None) vs))"
  by (induction vs) (auto split: option.splits)

lemma nanmean_mean_of_present: "nanmean vs = mean_of_present vs"
  by (simp add: nanmean_def mean_of_present_def total_present Let_def)

lemma mean_of_present_all_missing:
  "(\<forall>v\<in>set vs. v = None) \<Longrightarrow> mean_of_present vs = None"
  by (simp add: mean_of_present_def filter_empty_conv Let_def)

lemma groupby_mean_row:
  assumes "(k, m) \<in> set (groupby_mean by col df)"
  shows "k \<in> by ` set df \<and> k \<noteq> CNaN
    \<and> m = mean_of_present (map col (filter (\<lambda>r. by r = k) df))"
  using assms by (auto simp: groupby_mean_def set_group_keys nanmean_mean_of_present)

lemma groupby_mean2_row:
  assumes "(k, b, c) \<in> set (groupby_mean2 by col1 col2 df)"
  shows "k \<in> by ` set df \<and> k \<noteq> CNaN
    \<and> b = mean_of_present (map col1 (filter (\<lambda>r. by r = k) df))
    \<and> c = mean_of_present (map col2 (filter (\<lambda>r. by r = k) df))"
  using assms by (auto simp: groupby_mean2_def set_group_keys nanmean_mean_of_present)

lemma filter_clean_data:
  "filter (\<lambda>r. inseecommune r = k) (clean_data parse data)
   = clean_data parse (filter (\<lambda>r. normalize_key (inseecommune r) = k) data)"
  by (simp add: clean_data_def filter_map comp_def)

lemma keys_aggregate_by_commune:
  "map fst (aggregate_by_commune (clean_data parse data))
   = group_keys (map (\<lambda>r. normalize_key (inseecommune r)) data)"
  by (simp add: aggregate_by_commune_def keys_groupby_mean2 clean_data_def comp_def)

text \<open>
  The aggregators yield the mean of the present values. \<open>aggregate_by_commune\<close> of
  \<open>eau.py\<close>, after \<open>clean_data\<close>, has one row per normalized key of the water samples,
  with the mean over the present values of the samples sharing that key, missing when
  they are all missing. \<open>load_rent_data\<close> of \<open>final.py\<close> has one row per present key of
  the rent records as read, with the mean over the present rents of the records sharing
  that key.
\<close>

lemma aggregate_by_commune_means_present_values:
  "aggregate_by_commune (clean_data parse data)
   = map (\<lambda>k. (k,
        mean_of_present (map (\<lambda>r. to_numeric_coerce parse (plvconformitebacterio r))
          (filter (\<lambda>r. normalize_key (inseecommune r) = k) data)),
        mean_of_present (map (\<lambda>r. to_numeric_coerce parse (plvconformitechimique r))
          (filter (\<lambda>r. normalize_key (inseecommune r) = k) data))))
       (group_keys (map (\<lambda>r. normalize_key (inseecommune r)) data))"
  unfolding aggregate_by_commune_def groupby_mean2_def filter_clean_data nanmean_mean_of_present
  by (simp add: clean_data_def comp_def)

lemma load_rent_data_means_present_values:
  "rent_files \<noteq> [] \<Longrightarrow>
   load_rent_data rent_files
   = Inr (map (\<lambda>k. (k, mean_of_present
                 (map loypredm2 (filter (\<lambda>r. INSEE_C r = k) (concat rent_files)))))
            (group_keys (map INSEE_C (concat rent_files))))"
  by (simp add: load_rent_data_def pd_concat_def groupby_mean_def nanmean_mean_of_present)

lemma load_rent_data_no_file: "load_rent_data [] = Inl NoObjectsToConcatenate"
  by (simp add: load_rent_data_def pd_concat_def)

section \<open>Correlation: general facts\<close>

lemma ssqd_sym: "ssqd xs ys = ssqd ys xs"
proof -
  have "zip ys xs = map (\<lambda>(x, y). (y, x)) (zip xs ys)"
    by (rule zip_commute)
  then show ?thesis
    by (simp add: ssqd_def comp_def case_prod_unfold mult.commute)
qed

lemma ssqd_self: "ssqd xs xs = sum_list (map (\<lambda>x. (x - mean_of xs) * (x - mean_of xs)) xs)"
  by (simp add: ssqd_def zip_same_conv_map comp_def)

lemma ssqd_self_nonneg: "0 \<le> ssqd xs xs"
  unfolding ssqd_self by (rule sum_list_nonneg) auto

lemma ssqd_Nil: "ssqd [] [] = 0"
  by (simp add: ssqd_def)

lemma pearson_sym: "length xs = length ys \<Longrightarrow> pearson xs ys = pearson ys xs"
  by (simp add: pearson_def ssqd_sym [of xs ys] mult.commute)

lemma pearson_self: "ssqd xs xs \<noteq> 0 \<Longrightarrow> pearson xs xs = Some 1"
proof -
  assume nz: "ssqd xs xs \<noteq> 0"
  then have "xs \<noteq> []" using ssqd_Nil by auto
  then have len: "\<not> length xs < 1" by (cases xs) auto
  from nz have "sqrt (ssqd xs xs * ssqd xs xs) = ssqd xs xs"
    using ssqd_self_nonneg [of xs] by simp
  with nz len show ?thesis
    by (simp add: pearson_def)
qed

lemma length_column: "length (column j df) = length df"
  by (simp add: column_def)

lemma corr_entry:
  "i < n \<Longrightarrow> j < n \<Longrightarrow> corr n df ! i ! j = pearson (column i df) (column j df)"
  by (simp add: corr_def)

lemma corr_symmetric: "i < n \<Longrightarrow> j < n \<Longrightarrow> corr n df ! i ! j = corr n df ! j ! i"
  by (simp add: corr_entry pearson_sym length_column)

lemma corr_unit_diagonal:
  "i < n \<Longrightarrow> ssqd (column i df) (column i df) \<noteq> 0 \<Longrightarrow> corr n df ! i ! i = Some 1"
  by (simp add: corr_entry pearson_self)

lemma map_Some_the: "list_all (\<lambda>v. v \<noteq> None) row \<Longrightarrow> map (Some \<circ> the) row = row"
  by (induction row) auto

lemma dropna_complete_case:
  "map (map Some) (dropna df) = filter (\<lambda>row. None \<notin> set row) df"
proof -
  have eq: "list_all (\<lambda>v. v \<noteq> None) row \<longleftrightarrow> None \<notin> set row" for row :: "real option list"
  proof (induction row)
    case Nil
    show ?case by simp
  next
    case (Cons a row)
    then show ?case by (cases a) auto
  qed
  have "map (map Some) (dropna df) = filter (list_all (\<lambda>v. v \<noteq> None)) df"
    unfolding dropna_def by (induction df) (simp_all add: map_Some_the)
  moreover have "list_all (\<lambda>v. v \<noteq> None) = (\<lambda>row :: real option list. None \<notin> set row)"
    by (rule ext) (rule eq)
  ultimately show ?thesis by (simp only:)
qed

lemma heatmap_columns_False:
  "heatmap_columns False
   = (\<lambda>row. [col_bacterio_conformity row, col_chemical_conformity row, col_mean_loypredm2 row])"
  by (rule ext) (simp add: heatmap_columns_def)

lemma analyze_correlation_heatmap:
  "analyze_correlation geo_data = plot_correlation_heatmap False geo_data"
  by (simp add: analyze_correlation_def plot_correlation_heatmap_def heatmap_columns_False)

lemma sqrt_nonzero: "sqrt x \<noteq> 0 \<longleftrightarrow> x \<noteq> 0"
  by simp

lemma mean_of_column:
  "mean_of (column i df) = (\<Sum>r\<leftarrow>df. r ! i) / real (length df)"
  by (simp add: mean_of_def column_def)

lemma ssqd_column:
  "ssqd (column i df) (column j df)
   = (\<Sum>r\<leftarrow>df. (r ! i - (\<Sum>r'\<leftarrow>df. r' ! i) / real (length df))
                 * (r ! j - (\<Sum>r'\<leftarrow>df. r' ! j) / real (length df)))"
proof -
  have "zip (column i df) (column j df) = map (\<lambda>r. (r ! i, r ! j)) df"
    unfolding column_def by (induction df) simp_all
  then show ?thesis
    by (simp add: ssqd_def mean_of_column comp_def)
qed

lemma corr_entry_formula:
  assumes "i < n" and "j < n"
  shows "corr n df ! i ! j
   = (if df = []
         \<or> (\<Sum>r\<leftarrow>df. (r ! i - (\<Sum>r'\<leftarrow>df. r' ! i) / real (length df))
                        * (r ! i - (\<Sum>r'\<leftarrow>df. r' ! i) / real (length df)))
           * (\<Sum>r\<leftarrow>df. (r ! j - (\<Sum>r'\<leftarrow>df. r' ! j) / real (length df))
                          * (r ! j - (\<Sum>r'\<leftarrow>df. r' ! j) / real (length df))) = 0
      then None
      else Some ((\<Sum>r\<leftarrow>df. (r ! i - (\<Sum>r'\<leftarrow>df. r' ! i) / real (length df))
                            * (r ! j - (\<Sum>r'\<leftarrow>df. r' ! j) / real (length df)))
                 / sqrt ((\<Sum>r\<leftarrow>df. (r ! i - (\<Sum>r'\<leftarrow>df. r' ! i) / real (length df))
                                  * (r ! i - (\<Sum>r'\<leftarrow>df. r' ! i) / real (length df)))
                         * (\<Sum>r\<leftarrow>df. (r ! j - (\<Sum>r'\<leftarrow>df. r' ! j) / real (length df))
                                    * (r ! j - (\<Sum>r'\<leftarrow>df. r' ! j) / real (length df))))))"
proof -
  have len: "length (column i df) < 1 \<longleftrightarrow> df = []"
    by (cases df) (simp_all add: column_def)
  show ?thesis
    unfolding corr_entry [OF assms] pearson_def len Let_def sqrt_nonzero
    by (simp only: ssqd_column if_not_P if_P split: if_splits) auto
qed

lemma dropna_filter:
  "dropna df = map (map the) (filter (\<lambda>row. None \<notin> set row) df)"
proof -
  have "list_all (\<lambda>v. v \<noteq> None) = (\<lambda>row :: real option list. None \<notin> set row)"
  proof (rule ext)
    fix row :: "real option list"
    show "list_all (\<lambda>v. v \<noteq> None) row = (None \<notin> set row)"
    proof (induction row)
      case Nil
      show ?case by simp
    next
      case (Cons a row)
      then show ?case by (cases a) auto
    qed
  qed
  then show ?thesis by (simp only: dropna_def)
qed

lemma example_complete_cases:
  "dropna (map (heatmap_columns False) example_merged) = [[1, 0, 10], [0, 1, 12], [1, 1, 14]]"
  by (simp add: dropna_def heatmap_columns_def example_merged_def col_bacterio_conformity_def
      col_chemical_conformity_def col_mean_loypredm2_def)

section \<open>The example files, evaluated\<close>


lemma example_keys:
  "normalize_key (CInt 1001) = CStr ''01001''"
  "normalize_key (CInt 1002) = CStr ''01002''"
  "normalize_key (CStr ''1001'') = CStr ''01001''"
  "normalize_key (CStr ''01001'') = CStr ''01001''"
  "normalize_key (CStr ''01002'') = CStr ''01002''"
  "normalize_key (CStr ''01003'') = CStr ''01003''"
  "normalize_key (CStr ''2A004'') = CStr ''2A004''"
  "normalize_key (CStr ''2a004'') = CStr ''2a004''"
  by code_simp+

lemma example_group_keys:
  "group_keys [CStr ''01001'', CStr ''01002''] = [CStr ''01001'', CStr ''01002'']"
  "group_keys [CStr ''01001'', CStr ''01001'', CStr ''2A004''] = [CStr ''01001'', CStr ''2A004'']"
  "group_keys [CStr ''1001'', CStr ''2A004''] = [CStr ''1001'', CStr ''2A004'']"
  "group_keys [CStr ''01001'', CStr ''2A004''] = [CStr ''01001'', CStr ''2A004'']"
  "group_keys [CStr ''1001'', CStr ''01001'', CStr ''01001'', CStr ''2A004'']
   = [CStr ''01001'', CStr ''1001'', CStr ''2A004'']"
  "group_keys [CStr ''01001'', CStr ''01001'', CStr ''01001'', CStr ''2A004'']
   = [CStr ''01001'', CStr ''2A004'']"
  "group_keys [CStr ''01001'', CStr ''01001'', CStr ''01001''] = [CStr ''01001'']"
  "group_keys [CStr ''2A004'', CStr ''2a004''] = [CStr ''2A004'', CStr ''2a004'']"
  by code_simp+

lemma example_load_geo: "load_geo_data example_geo = example_geo"
  by (simp add: load_geo_data_def example_geo_def example_keys)

lemma example_clean_water:
  "clean_water_data example_water
   = [\<lparr> inseecommune = CStr ''01001'', plvconformitebacterio = CStr ''C'',
        plvconformitechimique = CNaN, bacterio_conformity = 1, chemical_conformity = 0 \<rparr>,
      \<lparr> inseecommune = CStr ''01002'', plvconformitebacterio = CStr ''N'',
        plvconformitechimique = CStr ''C'', bacterio_conformity = 0, chemical_conformity = 1 \<rparr>]"
  by (simp add: clean_water_data_def example_water_def example_keys encode_C encode_N encode_NaN)

lemma example_aggregate_water:
  "aggregate_water (clean_water_data example_water)
   = [(CStr ''01001'', Some 1, Some 0), (CStr ''01002'', Some 0, Some 1)]"
  by (simp add: example_clean_water aggregate_water_def groupby_mean2_def example_group_keys
      nanmean_def)





lemma example_load_rent:
  "load_rent_data [example_rent] = Inr [(CStr ''01001'', Some 11), (CStr ''2A004'', Some 8)]"
  by (simp add: load_rent_data_def pd_concat_def example_rent_def groupby_mean_def
      example_group_keys nanmean_def)

lemma example_load_rent_short:
  "load_rent_data [example_rent_short] = Inr [(CStr ''1001'', Some 10), (CStr ''2A004'', Some 8)]"
  by (simp add: load_rent_data_def pd_concat_def example_rent_short_def groupby_mean_def
      example_group_keys nanmean_def)

lemma example_load_rent_spellings:
  "load_rent_data [example_rent_spellings]
   = Inr [(CStr ''01001'', Some 12), (CStr ''1001'', Some 10), (CStr ''2A004'', None)]"
  by (simp add: load_rent_data_def pd_concat_def example_rent_spellings_def groupby_mean_def
      example_group_keys nanmean_def)


lemma example_mysql_rent_short:
  "mysql_load_rent_data [example_rent_short]
   = Inr [(CStr ''01001'', Some 10), (CStr ''2A004'', Some 8)]"
  by (simp add: mysql_load_rent_data_def pd_concat_def example_rent_short_def example_keys
      groupby_mean_def example_group_keys nanmean_def)

lemma example_mysql_rent_spellings:
  "mysql_load_rent_data [example_rent_spellings]
   = Inr [(CStr ''01001'', Some 11), (CStr ''2A004'', None)]"
  by (simp add: mysql_load_rent_data_def pd_concat_def example_rent_spellings_def example_keys
      groupby_mean_def example_group_keys nanmean_def)

lemma example_merge_left_water:
  "merge_left codgeo fst example_geo [(CStr ''01001'', Some 1, Some 0), (CStr ''01002'', Some 0, Some 1)]
   = Inr [(\<lparr> codgeo = CStr ''01001'', properties = () \<rparr>, Some (CStr ''01001'', Some 1, Some 0)),
          (\<lparr> codgeo = CStr ''01002'', properties = () \<rparr>, Some (CStr ''01002'', Some 0, Some 1)),
          (\<lparr> codgeo = CStr ''01003'', properties = () \<rparr>, None),
          (\<lparr> codgeo = CStr ''2A004'', properties = () \<rparr>, None)]"
  by (simp add: merge_left_def keys_clash_def text_keys_def int_keys_def left_join_def
      example_geo_def)

lemma example_merge_data:
  "merge_data example_geo (clean_water_data example_water)
     [(CStr ''01001'', Some 11), (CStr ''2A004'', Some 8)] None
   = Inr [\<lparr> geo_part = \<lparr> codgeo = CStr ''01001'', properties = () \<rparr>,
             water_part = Some (CStr ''01001'', Some 1, Some 0),
             rent_part = Some (CStr ''01001'', Some 11), pop_part = None \<rparr>,
          \<lparr> geo_part = \<lparr> codgeo = CStr ''01002'', properties = () \<rparr>,
             water_part = Some (CStr ''01002'', Some 0, Some 1),
             rent_part = None, pop_part = None \<rparr>,
          \<lparr> geo_part = \<lparr> codgeo = CStr ''01003'', properties = () \<rparr>,
             water_part = None, rent_part = None, pop_part = None \<rparr>,
          \<lparr> geo_part = \<lparr> codgeo = CStr ''2A004'', properties = () \<rparr>,
             water_part = None, rent_part = Some (CStr ''2A004'', Some 8), pop_part = None \<rparr>]"
  unfolding merge_data_def example_aggregate_water example_merge_left_water
  by (simp add: merge_left_def keys_clash_def text_keys_def int_keys_def left_join_def)

lemma example_merge_data_short:
  "merge_data example_geo (clean_water_data example_water)
     [(CStr ''1001'', Some 10), (CStr ''2A004'', Some 8)] None
   = Inr [\<lparr> geo_part = \<lparr> codgeo = CStr ''01001'', properties = () \<rparr>,
             water_part = Some (CStr ''01001'', Some 1, Some 0),
             rent_part = None, pop_part = None \<rparr>,
          \<lparr> geo_part = \<lparr> codgeo = CStr ''01002'', properties = () \<rparr>,
             water_part = Some (CStr ''01002'', Some 0, Some 1),
             rent_part = None, pop_part = None \<rparr>,
          \<lparr> geo_part = \<lparr> codgeo = CStr ''01003'', properties = () \<rparr>,
             water_part = None, rent_part = None, pop_part = None \<rparr>,
          \<lparr> geo_part = \<lparr> codgeo = CStr ''2A004'', properties = () \<rparr>,
             water_part = None, rent_part = Some (CStr ''2A004'', Some 8), pop_part = None \<rparr>]"
  unfolding merge_data_def example_aggregate_water example_merge_left_water
  by (simp add: merge_left_def keys_clash_def text_keys_def int_keys_def left_join_def)

lemma final_main_merge_data:
  "final_main [water_file] geojson [rent_file] None
   = (case load_rent_data [rent_file] of
        Inl e \<Rightarrow> Inl e
      | Inr rent_data \<Rightarrow>
          merge_data (load_geo_data geojson) (clean_water_data water_file) rent_data None)"
  by (simp add: final_main_def load_water_data_def pd_concat_def load_population_data_def
      split: sum.splits)


lemma example_final_main_short:
  "final_main [example_water] example_geo [example_rent_short] None
   = Inr [\<lparr> geo_part = \<lparr> codgeo = CStr ''01001'', properties = () \<rparr>,
             water_part = Some (CStr ''01001'', Some 1, Some 0),
             rent_part = None, pop_part = None \<rparr>,
          \<lparr> geo_part = \<lparr> codgeo = CStr ''01002'', properties = () \<rparr>,
             water_part = Some (CStr ''01002'', Some 0, Some 1),
             rent_part = None, pop_part = None \<rparr>,
          \<lparr> geo_part = \<lparr> codgeo = CStr ''01003'', properties = () \<rparr>,
             water_part = None, rent_part = None, pop_part = None \<rparr>,
          \<lparr> geo_part = \<lparr> codgeo = CStr ''2A004'', properties = () \<rparr>,
             water_part = None, rent_part = Some (CStr ''2A004'', Some 8), pop_part = None \<rparr>]"
  by (simp only: final_main_merge_data example_load_rent_short example_load_geo sum.case
      example_merge_data_short)

lemma example_preprocess_data_short:
  "preprocess_data example_geo [example_rent_short]
   = Inr [(\<lparr> codgeo = CStr ''01001'', properties = () \<rparr>, Some (CStr ''01001'', Some 10)),
          (\<lparr> codgeo = CStr ''01002'', properties = () \<rparr>, None),
          (\<lparr> codgeo = CStr ''01003'', properties = () \<rparr>, None),
          (\<lparr> codgeo = CStr ''2A004'', properties = () \<rparr>, Some (CStr ''2A004'', Some 8))]"
  unfolding preprocess_data_def example_load_geo
  by (simp add: am_load_rent_data_def pd_concat_def example_rent_short_def example_keys
      groupby_mean_def example_group_keys nanmean_def merge_left_def keys_clash_def
      text_keys_def int_keys_def left_join_def example_geo_def)

lemma to_numeric_coerce_C: "to_numeric_coerce parse (CStr ''C'') = None"
  by (simp add: to_numeric_coerce_def)

lemma to_numeric_coerce_N: "to_numeric_coerce parse (CStr ''N'') = None"
  by (simp add: to_numeric_coerce_def)

section \<open>The durable store: general facts\<close>





lemma mysql_load_rent_data_Inr:
  "mysql_load_rent_data rent_files = Inr rent_data \<longleftrightarrow>
     rent_files \<noteq> []
     \<and> rent_data = groupby_mean INSEE_C loypredm2
         (map (\<lambda>r. r\<lparr> INSEE_C := normalize_key (INSEE_C r) \<rparr>) (concat rent_files))"
  by (auto simp: mysql_load_rent_data_def pd_concat_def)


lemma distinct_mysql_load_rent_data:
  "mysql_load_rent_data rent_files = Inr rent_data \<Longrightarrow> distinct (map fst rent_data)"
  by (simp add: mysql_load_rent_data_Inr distinct_groupby_mean)

lemma set_sql_groups_subset: "set (sql_groups same ks) \<subseteq> set ks"
  by (induction same ks rule: sql_groups.induct) auto








section \<open>When \<open>final.py\<close> fails and what it produces\<close>






text \<open>
  \<open>merge_data\<close> of \<open>eau_merge.py\<close> is \<open>merge_data\<close> of \<open>final.py\<close> on the rent
  aggregate it computes itself, without population. With a population sheet of one row
  per code, the merged table of \<open>final.py\<close> still has the rows of the geometry table.
\<close>


lemma eau_merge_merge_data_final:
  "eau_merge_merge_data geo_data water_data rent_data
   = merge_data geo_data water_data (groupby_mean INSEE_C loypredm2 rent_data) None"
  by (simp add: eau_merge_merge_data_def merge_data_def split: sum.splits)

lemma merge_data_with_population:
  assumes "distinct (map fst rent_data)"
    and "distinct (map pop_codgeo pop)"
    and "merge_data geo_data water_data rent_data (Some pop) = Inr merged"
  shows "merged = map (\<lambda>g. \<lparr> geo_part = g,
                 water_part = find (\<lambda>w. fst w = codgeo g) (aggregate_water water_data),
                 rent_part = find (\<lambda>r. fst r = codgeo g) rent_data,
                 pop_part = Some (find (\<lambda>p. pop_codgeo p = codgeo g) pop) \<rparr>) geo_data"
  using assms(3)
  by (simp add: merge_data_def merge_left_distinct [OF distinct_aggregate_water]
      merge_left_distinct [OF assms(1)] merge_left_distinct [OF assms(2)] comp_def
      split: if_splits)
section \<open>The durable store on the example files\<close>













section \<open>The Key Normalizer pads and never truncates\<close>

lemma length_zfill: "length (zfill w s) = max w (length s)"
  by (cases s) auto

lemma zfill_long: "w \<le> length s \<Longrightarrow> zfill w s = s"
  by (cases s) auto

lemma zfill_unsigned:
  assumes "s = [] \<or> (hd s \<noteq> CHR ''+'' \<and> hd s \<noteq> CHR ''-'')"
  shows "zfill w s = replicate (w - length s) CHR ''0'' @ s"
  using assms by (cases s) auto

lemma zfill_signed:
  assumes "c = CHR ''+'' \<or> c = CHR ''-''"
  shows "zfill w (c # s) = c # replicate (w - length (c # s)) CHR ''0'' @ s"
  using assms by auto

lemma zfill_idem: "zfill w (zfill w s) = zfill w s"
  by (rule zfill_long) (simp add: length_zfill)

lemma normalize_idem: "normalize_key (normalize_key raw) = normalize_key raw"
  by (simp add: normalize_key_def zfill_idem)

lemma normalize_examples:
  "normalize_key (CInt 1) = CStr ''00001''"
  "normalize_key (CStr ''750'') = CStr ''00750''"
  "normalize_key (CStr ''12345'') = CStr ''12345''"
  "normalize_key (CStr ''123456'') = CStr ''123456''"
  by code_simp+

text \<open>
  Claim C8. The Key Normalizer turns its input into a string and fills it with \<open>0\<close> up
  to five characters: \<open>normalize(1) = "00001"\<close>, \<open>normalize("750") = "00750"\<close>,
  \<open>normalize("12345") = "12345"\<close>, \<open>normalize("123456") = "123456"\<close>. The result has
  \<open>max 5 n\<close> characters for an input of \<open>n\<close> characters; an input whose string form
  has five characters or more is returned unchanged, a shorter one gets the zeros in
  front (behind the sign when it starts with one), and normalizing a normalized code
  returns it unchanged.
\<close>

theorem normalize_pads_never_truncates:
  "normalize_key (CInt 1) = CStr ''00001''
   \<and> normalize_key (CStr ''750'') = CStr ''00750''
   \<and> normalize_key (CStr ''12345'') = CStr ''12345''
   \<and> normalize_key (CStr ''123456'') = CStr ''123456''
   \<and> (\<exists>s. normalize_key raw = CStr s \<and> length s = max 5 (length (astype_str raw)))
   \<and> (5 \<le> length (astype_str raw) \<longrightarrow> normalize_key raw = CStr (astype_str raw))
   \<and> (astype_str raw = [] \<or> (hd (astype_str raw) \<noteq> CHR ''+'' \<and> hd (astype_str raw) \<noteq> CHR ''-'')
        \<longrightarrow> normalize_key raw
          = CStr (replicate (5 - length (astype_str raw)) CHR ''0'' @ astype_str raw))
   \<and> (\<forall>c s. astype_str raw = c # s \<and> (c = CHR ''+'' \<or> c = CHR ''-'')
        \<longrightarrow> normalize_key raw = CStr (c # replicate (5 - length (c # s)) CHR ''0'' @ s))
   \<and> normalize_key (normalize_key raw) = normalize_key raw"
proof -
  have len: "\<exists>s. normalize_key raw = CStr s \<and> length s = max 5 (length (astype_str raw))"
    by (simp add: normalize_key_def length_zfill)
  have long: "5 \<le> length (astype_str raw) \<longrightarrow> normalize_key raw = CStr (astype_str raw)"
    by (simp add: normalize_key_def zfill_long)
  have unsigned:
    "astype_str raw = [] \<or> (hd (astype_str raw) \<noteq> CHR ''+'' \<and> hd (astype_str raw) \<noteq> CHR ''-'')
      \<longrightarrow> normalize_key raw
          = CStr (replicate (5 - length (astype_str raw)) CHR ''0'' @ astype_str raw)"
    unfolding normalize_key_def using zfill_unsigned [of "astype_str raw" 5] by blast
  have signed:
    "\<forall>c s. astype_str raw = c # s \<and> (c = CHR ''+'' \<or> c = CHR ''-'')
        \<longrightarrow> normalize_key raw = CStr (c # replicate (5 - length (c # s)) CHR ''0'' @ s)"
    unfolding normalize_key_def using zfill_signed [of _ 5] by metis
  show ?thesis
    using normalize_examples len long unsigned signed normalize_idem by blast
qed

theorem normalize_pads_never_truncates_witness:
  "normalize_key (CInt 42) = CStr ''00042''
   \<and> normalize_key (CStr ''123456'') = CStr ''123456''
   \<and> normalize_key (CInt (- 7)) = CStr ''-0007''
   \<and> normalize_key (normalize_key (CInt 42)) = normalize_key (CInt 42)"
proof -
  have a: "astype_str (CInt 42) = ''42''" by code_simp
  have b: "astype_str (CInt (- 7)) = ''-7''" by code_simp
  have c: "astype_str (CStr ''123456'') = ''123456''" by simp
  have d: "normalize_key (CStr ''00042'') = CStr ''00042''" by code_simp
  show ?thesis
    using normalize_pads_never_truncates [of "CInt 42"]
      normalize_pads_never_truncates [of "CInt (- 7)"]
      normalize_pads_never_truncates [of "CStr ''123456''"]
    unfolding a b c by (simp add: numeral_eq_Suc d)
qed


section \<open>The order of the joins\<close>

text \<open>
  Claim C7. Joining two indicator tables onto the geometry table in either order gives the
  same table: for every geometry table and every two indicator tables with one row per
  key (what the Commune Aggregator produces), merging the first and then the second, or
  the second and then the first, yields the same rows in the same order, each with the
  same commune and the same indicator values (or the same missing ones), and the two
  orders fail on the same inputs. The columns of the two tables are kept apart by
  position, so they are disjoint.
\<close>

theorem join_order_irrelevant:
  assumes "distinct (map key1 I1)" and "distinct (map key2 I2)"
  shows "map_sum id (map (\<lambda>((g, a), b). (g, a, b)))
           (case merge_left codgeo key1 G I1 of
              Inl e \<Rightarrow> Inl e
            | Inr t \<Rightarrow> merge_left (\<lambda>(g, a). codgeo g) key2 t I2)
       = map_sum id (map (\<lambda>((g, b), a). (g, a, b)))
           (case merge_left codgeo key2 G I2 of
              Inl e \<Rightarrow> Inl e
            | Inr t \<Rightarrow> merge_left (\<lambda>(g, b). codgeo g) key1 t I1)"
proof -
  have "map_sum id (map (\<lambda>((g, b), a). (g, a, b)))
           (case merge_left codgeo key2 G I2 of
              Inl e \<Rightarrow> Inl e
            | Inr t \<Rightarrow> merge_left (\<lambda>(g, b). codgeo g) key1 t I1)
        = (if keys_clash (map codgeo G) (map key1 I1) \<or> keys_clash (map codgeo G) (map key2 I2)
            then Inl MergeKeyTypeError
            else Inr (map (\<lambda>g. (g, find (\<lambda>r. key1 r = codgeo g) I1,
                                   find (\<lambda>r. key2 r = codgeo g) I2)) G))"
    by (simp add: merge_left_distinct [OF assms(1)] merge_left_distinct [OF assms(2)] comp_def)
  then show ?thesis
    by (simp only: join_twice [OF assms])
qed

theorem join_order_irrelevant_witness:
  "map_sum id (map (\<lambda>((g, a), b). (g, a, b)))
     (case merge_left codgeo fst (scenario_geo () () ())
             [(CStr ''00001'', Some (1::real)), (CStr ''00002'', Some 0)] of
        Inl e \<Rightarrow> Inl e
      | Inr t \<Rightarrow> merge_left (\<lambda>(g, a). codgeo g) fst t [(CStr ''00001'', Some (11::real))])
   = Inr [(\<lparr> codgeo = CStr ''00001'', properties = () \<rparr>,
            Some (CStr ''00001'', Some 1), Some (CStr ''00001'', Some 11)),
          (\<lparr> codgeo = CStr ''00002'', properties = () \<rparr>, Some (CStr ''00002'', Some 0), None),
          (\<lparr> codgeo = CStr ''00003'', properties = () \<rparr>, None, None)]
   \<and> map_sum id (map (\<lambda>((g, b), a). (g, a, b)))
     (case merge_left codgeo fst (scenario_geo () () ()) [(CStr ''00001'', Some (11::real))] of
        Inl e \<Rightarrow> Inl e
      | Inr t \<Rightarrow> merge_left (\<lambda>(g, b). codgeo g) fst t
                   [(CStr ''00001'', Some (1::real)), (CStr ''00002'', Some 0)])
   = Inr [(\<lparr> codgeo = CStr ''00001'', properties = () \<rparr>,
            Some (CStr ''00001'', Some 1), Some (CStr ''00001'', Some 11)),
          (\<lparr> codgeo = CStr ''00002'', properties = () \<rparr>, Some (CStr ''00002'', Some 0), None),
          (\<lparr> codgeo = CStr ''00003'', properties = () \<rparr>, None, None)]"
proof -
  have d1: "distinct (map fst [(CStr ''00001'', Some (1::real)), (CStr ''00002'', Some 0)])"
    by simp
  have d2: "distinct (map fst [(CStr ''00001'', Some (11::real))])"
    by simp
  have l: "map_sum id (map (\<lambda>((g, a), b). (g, a, b)))
     (case merge_left codgeo fst (scenario_geo () () ())
             [(CStr ''00001'', Some (1::real)), (CStr ''00002'', Some 0)] of
        Inl e \<Rightarrow> Inl e
      | Inr t \<Rightarrow> merge_left (\<lambda>(g, a). codgeo g) fst t [(CStr ''00001'', Some (11::real))])
   = Inr [(\<lparr> codgeo = CStr ''00001'', properties = () \<rparr>,
            Some (CStr ''00001'', Some 1), Some (CStr ''00001'', Some 11)),
          (\<lparr> codgeo = CStr ''00002'', properties = () \<rparr>, Some (CStr ''00002'', Some 0), None),
          (\<lparr> codgeo = CStr ''00003'', properties = () \<rparr>, None, None)]"
    by (simp add: merge_left_def keys_clash_def text_keys_def int_keys_def left_join_def
        scenario_geo_def)
  show ?thesis
    using join_order_irrelevant [OF d1 d2, of "scenario_geo () () ()"] l by simp
qed

section \<open>The merged table has the rows of the geometry table\<close>

text \<open>
  Claim C3. The table \<open>merge_data\<close> produces from the geometry table, the water
  aggregate and a rent aggregate with one row per key has exactly as many rows as the
  geometry table, whatever the overlap of the keys: its communes are those of the geometry
  table, each once and in order, and in a row whose code has no water row (no rent row)
  the columns of that table are explicitly missing.
\<close>

theorem merge_data_keeps_geometry_rows:
  assumes "distinct (map fst rent_data)"
    and "merge_data geo_data water_data rent_data None = Inr merged"
  shows "length merged = length geo_data
    \<and> map geo_part merged = geo_data
    \<and> (\<forall>row\<in>set merged. col_codgeo row \<notin> inseecommune ` set water_data \<longrightarrow>
          water_part row = None \<and> col_inseecommune row = CNaN
          \<and> col_bacterio_conformity row = None \<and> col_chemical_conformity row = None)
    \<and> (\<forall>row\<in>set merged. col_codgeo row \<notin> fst ` set rent_data \<longrightarrow>
          rent_part row = None \<and> col_INSEE_C row = CNaN \<and> col_mean_loypredm2 row = None)"
proof -
  note m = merge_data_without_population [OF assms]
  have len: "length merged = length geo_data" by (simp add: m)
  have geo: "map geo_part merged = geo_data" by (simp add: m comp_def)
  have water: "water_part row = None \<and> col_inseecommune row = CNaN
          \<and> col_bacterio_conformity row = None \<and> col_chemical_conformity row = None"
    if "row \<in> set merged" "col_codgeo row \<notin> inseecommune ` set water_data" for row
  proof -
    from that(1) obtain g where row: "row = \<lparr> geo_part = g,
                 water_part = find (\<lambda>w. fst w = codgeo g) (aggregate_water water_data),
                 rent_part = find (\<lambda>r. fst r = codgeo g) rent_data,
                 pop_part = None \<rparr>"
      unfolding m by auto
    have "codgeo g \<notin> fst ` set (aggregate_water water_data)"
      using that(2) by (simp add: row col_codgeo_def keys_aggregate_water)
    then have "water_part row = None"
      by (simp add: row find_None_key)
    then show ?thesis
      by (simp add: col_inseecommune_def col_bacterio_conformity_def col_chemical_conformity_def)
  qed
  have rent: "rent_part row = None \<and> col_INSEE_C row = CNaN \<and> col_mean_loypredm2 row = None"
    if "row \<in> set merged" "col_codgeo row \<notin> fst ` set rent_data" for row
  proof -
    from that(1) obtain g where row: "row = \<lparr> geo_part = g,
                 water_part = find (\<lambda>w. fst w = codgeo g) (aggregate_water water_data),
                 rent_part = find (\<lambda>r. fst r = codgeo g) rent_data,
                 pop_part = None \<rparr>"
      unfolding m by auto
    have "rent_part row = None"
      using that(2) by (simp add: row col_codgeo_def find_None_key)
    then show ?thesis
      by (simp add: col_INSEE_C_def col_mean_loypredm2_def)
  qed
  from len geo water rent show ?thesis by blast
qed

theorem merge_data_keeps_geometry_rows_witness:
  "\<exists>rent_data merged.
     load_rent_data [example_rent] = Inr rent_data
     \<and> distinct (map fst rent_data)
     \<and> merge_data (load_geo_data example_geo) (clean_water_data example_water) rent_data None
       = Inr merged
     \<and> length merged = 4
     \<and> map col_codgeo merged = [CStr ''01001'', CStr ''01002'', CStr ''01003'', CStr ''2A004'']
     \<and> col_mean_loypredm2 (merged ! 1) = None
     \<and> col_bacterio_conformity (merged ! 2) = None
     \<and> col_mean_loypredm2 (merged ! 2) = None
     \<and> col_bacterio_conformity (merged ! 3) = None"
proof -
  let ?rent = "[(CStr ''01001'', Some (11 :: real)), (CStr ''2A004'', Some 8)]"
  note rent = example_load_rent
  have d: "distinct (map fst ?rent)"
    by simp
  obtain merged where eq: "merge_data (load_geo_data example_geo)
       (clean_water_data example_water) ?rent None = Inr merged"
    and rows: "map col_codgeo merged
       = [CStr ''01001'', CStr ''01002'', CStr ''01003'', CStr ''2A004'']"
    unfolding example_load_geo example_merge_data by (simp add: col_codgeo_def)
  have len: "length merged = 4"
    using arg_cong [OF rows, of length] by simp
  have r1: "merged ! 1 \<in> set merged" and r2: "merged ! 2 \<in> set merged"
    and r3: "merged ! 3 \<in> set merged"
    using len by simp_all
  have c1: "col_codgeo (merged ! 1) = CStr ''01002''"
    and c2: "col_codgeo (merged ! 2) = CStr ''01003''"
    and c3: "col_codgeo (merged ! 3) = CStr ''2A004''"
    using arg_cong [OF rows, of "\<lambda>xs. xs ! 1"] arg_cong [OF rows, of "\<lambda>xs. xs ! 2"]
      arg_cong [OF rows, of "\<lambda>xs. xs ! 3"] len
    by simp_all
  note t = merge_data_keeps_geometry_rows [OF d eq]
  have "col_mean_loypredm2 (merged ! 1) = None"
    using t r1 c1 by simp
  moreover have "col_mean_loypredm2 (merged ! 2) = None"
    using t r2 c2 by simp
  moreover have "col_bacterio_conformity (merged ! 2) = None"
    using t r2 c2 by (simp add: example_clean_water)
  moreover have "col_bacterio_conformity (merged ! 3) = None"
    using t r3 c3 by (simp add: example_clean_water)
  ultimately show ?thesis
    using rent d eq rows len by (intro exI [of _ ?rent] exI [of _ merged]) simp
qed

section \<open>A commune with water samples has a conformity rate\<close>

text \<open>
  Claim C10. The encoded conformity cells are never missing (they are \<open>0\<close> or \<open>1\<close>),
  so every commune of the merged table matched by at least one water sample has a
  conformity rate that is not missing: the share of its samples whose raw code is \<open>C\<close>.
  In particular a commune all of whose raw codes are missing has the rate \<open>0\<close>.
\<close>

theorem matched_commune_has_conformity_rate:
  assumes "merge_data geo_data (clean_water_data water_data) rent_data pop_data = Inr merged"
    and "row \<in> set merged"
    and "w \<in> set water_data"
    and "normalize_key (inseecommune w) = col_codgeo row"
  shows "col_bacterio_conformity row
      = Some (real (length (filter (\<lambda>s. plvconformitebacterio s = CStr ''C'')
                (filter (\<lambda>s. normalize_key (inseecommune s) = col_codgeo row) water_data)))
              / real (length (filter (\<lambda>s. normalize_key (inseecommune s) = col_codgeo row) water_data)))
    \<and> col_chemical_conformity row
      = Some (real (length (filter (\<lambda>s. plvconformitechimique s = CStr ''C'')
                (filter (\<lambda>s. normalize_key (inseecommune s) = col_codgeo row) water_data)))
              / real (length (filter (\<lambda>s. normalize_key (inseecommune s) = col_codgeo row) water_data)))
    \<and> ((\<forall>s\<in>set water_data. normalize_key (inseecommune s) = col_codgeo row
            \<longrightarrow> plvconformitebacterio s = CNaN)
        \<longrightarrow> col_bacterio_conformity row = Some 0)
    \<and> ((\<forall>s\<in>set water_data. normalize_key (inseecommune s) = col_codgeo row
            \<longrightarrow> plvconformitechimique s = CNaN)
        \<longrightarrow> col_chemical_conformity row = Some 0)"
proof -
  define k where "k = col_codgeo row"
  define samples where "samples = filter (\<lambda>s. normalize_key (inseecommune s) = k) water_data"
  have ne: "samples \<noteq> []"
    using assms(3,4) by (auto simp: samples_def k_def filter_empty_conv)
  have "k \<in> inseecommune ` set (clean_water_data water_data)"
    using assms(3,4) by (force simp: clean_water_data_def k_def)
  moreover have "k \<noteq> CNaN"
    using assms(4) is_CStr_normalize_key [of "inseecommune w"] by (simp add: k_def)
  ultimately have key: "k \<in> set (group_keys (map inseecommune (clean_water_data water_data)))"
    by (simp add: set_group_keys)
  have grp: "filter (\<lambda>r. inseecommune r = k) (clean_water_data water_data) = clean_water_data samples"
    by (simp add: inseecommune_clean_water_data samples_def)
  have "water_part row = Some (k,
      nanmean (map (\<lambda>r. Some (real_of_int (bacterio_conformity r))) (clean_water_data samples)),
      nanmean (map (\<lambda>r. Some (real_of_int (chemical_conformity r))) (clean_water_data samples)))"
    unfolding merge_data_water_part [OF assms(1,2)] aggregate_water_def find_groupby_mean2
    using key by (simp add: k_def [symmetric] grp)
  also have "map (\<lambda>r. Some (real_of_int (bacterio_conformity r))) (clean_water_data samples)
      = map (\<lambda>s. Some (real_of_int (encode (plvconformitebacterio s)))) samples"
    by (simp add: clean_water_data_def comp_def)
  also have "map (\<lambda>r. Some (real_of_int (chemical_conformity r))) (clean_water_data samples)
      = map (\<lambda>s. Some (real_of_int (encode (plvconformitechimique s)))) samples"
    by (simp add: clean_water_data_def comp_def)
  finally have wp: "water_part row = Some (k,
      Some (real (length (filter (\<lambda>s. plvconformitebacterio s = CStr ''C'') samples))
            / real (length samples)),
      Some (real (length (filter (\<lambda>s. plvconformitechimique s = CStr ''C'') samples))
            / real (length samples)))"
    by (simp add: nanmean_all_present [OF ne] sum_encode)
  have b: "col_bacterio_conformity row
      = Some (real (length (filter (\<lambda>s. plvconformitebacterio s = CStr ''C'') samples))
              / real (length samples))"
    by (simp add: col_bacterio_conformity_def wp)
  have c: "col_chemical_conformity row
      = Some (real (length (filter (\<lambda>s. plvconformitechimique s = CStr ''C'') samples))
              / real (length samples))"
    by (simp add: col_chemical_conformity_def wp)
  have b0: "col_bacterio_conformity row = Some 0"
    if "\<forall>s\<in>set water_data. normalize_key (inseecommune s) = k \<longrightarrow> plvconformitebacterio s = CNaN"
  proof -
    have "filter (\<lambda>s. plvconformitebacterio s = CStr ''C'') samples = []"
      using that by (auto simp: samples_def filter_empty_conv)
    then show ?thesis by (simp add: b)
  qed
  have c0: "col_chemical_conformity row = Some 0"
    if "\<forall>s\<in>set water_data. normalize_key (inseecommune s) = k \<longrightarrow> plvconformitechimique s = CNaN"
  proof -
    have "filter (\<lambda>s. plvconformitechimique s = CStr ''C'') samples = []"
      using that by (auto simp: samples_def filter_empty_conv)
    then show ?thesis by (simp add: c)
  qed
  from b c b0 c0 show ?thesis
    unfolding samples_def k_def by blast
qed

theorem matched_commune_has_conformity_rate_witness:
  "\<exists>merged.
     merge_data (load_geo_data example_geo) (clean_water_data example_water)
       [(CStr ''01001'', Some 11), (CStr ''2A004'', Some 8)] None = Inr merged
     \<and> hd example_water \<in> set example_water
     \<and> normalize_key (inseecommune (hd example_water)) = col_codgeo (hd merged)
     \<and> hd merged \<in> set merged
     \<and> plvconformitechimique (hd example_water) = CNaN
     \<and> col_bacterio_conformity (hd merged) = Some 1
     \<and> col_chemical_conformity (hd merged) = Some 0"
proof -
  obtain merged where eq: "merge_data (load_geo_data example_geo)
       (clean_water_data example_water)
       [(CStr ''01001'', Some 11), (CStr ''2A004'', Some 8)] None = Inr merged"
    and rows: "map col_codgeo merged
       = [CStr ''01001'', CStr ''01002'', CStr ''01003'', CStr ''2A004'']"
    unfolding example_load_geo example_merge_data by (simp add: col_codgeo_def)
  have row: "hd merged \<in> set merged" and code: "col_codgeo (hd merged) = CStr ''01001''"
    using rows by (cases merged; simp)+
  have w: "hd example_water \<in> set example_water"
    by (simp add: example_water_def)
  have k: "normalize_key (inseecommune (hd example_water)) = col_codgeo (hd merged)"
    by (simp add: example_water_def example_keys code)
  have n: "plvconformitechimique (hd example_water) = CNaN"
    by (simp add: example_water_def)
  have "col_bacterio_conformity (hd merged) = Some 1 \<and> col_chemical_conformity (hd merged) = Some 0"
    using matched_commune_has_conformity_rate [OF eq row w k]
    by (simp add: code example_water_def example_keys)
  with eq row w k n show ?thesis by (intro exI [of _ merged]) simp
qed

section \<open>The end-to-end scenario\<close>

text \<open>
  Claim C2 says that on the scenario (communes \<open>00001\<close>, \<open>00002\<close>, \<open>00003\<close>; water
  samples with raw key \<open>1\<close> and code \<open>C\<close>, raw key \<open>2\<close> and code \<open>N\<close>; rents
  \<open>10.0\<close> and \<open>12.0\<close> for \<open>00001\<close>) the pipeline produces three rows: \<open>00001\<close> with
  \<open>bacterio_conformity = 1.0\<close> and \<open>mean_loypredm2 = 11.0\<close>; \<open>00002\<close> with
  \<open>bacterio_conformity = 0.0\<close> and \<open>mean_loypredm2\<close> missing; \<open>00003\<close> with every
  indicator column missing. The pipeline of \<open>final.py\<close> produces no table: the rent key
  column, which holds \<open>00001\<close> only, is read as the integer \<open>1\<close>, \<open>load_rent_data\<close>
  groups on it as read, and pandas refuses to merge the text codes of the communes with
  an integer column. \<open>load_rent_data\<close> of \<open>mysql_database.py\<close> and \<open>preprocess_data\<close>
  of \<open>am.py\<close> normalize the key first; on the rent aggregate so obtained, \<open>merge_data\<close>
  of \<open>final.py\<close> produces the table of the claim.
\<close>

theorem end_to_end_scenario_refused:
  "final_main [scenario_water chem1 chem2] (scenario_geo p1 p2 p3) [scenario_rent] None
   = Inl MergeKeyTypeError
   \<and> load_rent_data [scenario_rent] = Inr [(CInt 1, Some 11)]
   \<and> mysql_load_rent_data [scenario_rent] = Inr [(CStr ''00001'', Some 11)]
   \<and> preprocess_data (scenario_geo p1 p2 p3) [scenario_rent]
     = Inr [(\<lparr> codgeo = CStr ''00001'', properties = p1 \<rparr>, Some (CStr ''00001'', Some 11)),
            (\<lparr> codgeo = CStr ''00002'', properties = p2 \<rparr>, None),
            (\<lparr> codgeo = CStr ''00003'', properties = p3 \<rparr>, None)]
   \<and> map_sum id (map (\<lambda>row. (col_codgeo row, col_bacterio_conformity row,
                              col_chemical_conformity row, col_mean_loypredm2 row,
                              col_inseecommune row, col_INSEE_C row)))
       (merge_data (load_geo_data (scenario_geo p1 p2 p3))
          (clean_water_data (scenario_water chem1 chem2)) [(CStr ''00001'', Some 11)] None)
     = Inr [(CStr ''00001'', Some 1, Some (real_of_int (encode chem1)), Some 11,
               CStr ''00001'', CStr ''00001''),
            (CStr ''00002'', Some 0, Some (real_of_int (encode chem2)), None,
               CStr ''00002'', CNaN),
            (CStr ''00003'', None, None, None, CNaN, CNaN)]"
  by (simp add: scenario_final_main scenario_load_rent scenario_mysql_rent
      scenario_preprocess_data scenario_merge_data_normalized col_codgeo_def
      col_bacterio_conformity_def col_chemical_conformity_def col_mean_loypredm2_def
      col_inseecommune_def col_INSEE_C_def)

section \<open>The rent aggregate of \<open>final.py\<close> groups on the key as read\<close>

text \<open>
  Claim C4 says that the Commune Aggregator yields, for each group of records sharing a
  normalized key, the mean over the present values, and a missing result when every
  value of the group is missing. The mean is that one in every aggregator (lemmas
  \<open>aggregate_by_commune_means_present_values\<close> and
  \<open>load_rent_data_means_present_values\<close>), and \<open>aggregate_by_commune\<close> of \<open>eau.py\<close>
  groups on the normalized key. \<open>load_rent_data\<close> of \<open>final.py\<close> groups on \<open>INSEE_C\<close> as read: with one
  commune written \<open>1001\<close> (rent \<open>10\<close>) and \<open>01001\<close> (rent \<open>12\<close> and a missing
  rent), and only a missing rent for \<open>2A004\<close>, it yields two groups for the commune,
  with the means \<open>10\<close> and \<open>12\<close>, where the records sharing the normalized key
  \<open>01001\<close> have the mean \<open>11\<close>, the one \<open>load_rent_data\<close> of \<open>mysql_database.py\<close>
  yields. The missing rent is skipped and the mean of \<open>2A004\<close> is missing, as claimed.
\<close>

theorem rent_mean_groups_on_key_as_read:
  "load_rent_data [example_rent_spellings]
   = Inr [(CStr ''01001'', Some 12), (CStr ''1001'', Some 10), (CStr ''2A004'', None)]
   \<and> mean_of_present (map loypredm2
         (filter (\<lambda>r. normalize_key (INSEE_C r) = CStr ''01001'') example_rent_spellings))
     = Some 11
   \<and> mean_of_present (map loypredm2
         (filter (\<lambda>r. normalize_key (INSEE_C r) = CStr ''2A004'') example_rent_spellings))
     = None
   \<and> mysql_load_rent_data [example_rent_spellings]
     = Inr [(CStr ''01001'', Some 11), (CStr ''2A004'', None)]"
  by (simp add: example_load_rent_spellings example_mysql_rent_spellings)
    (simp add: example_rent_spellings_def example_keys mean_of_present_def)

section \<open>The correlation matrix\<close>

text \<open>
  Claim C9. The Correlation Analyzer first drops every row with a missing value in any of
  the selected columns (complete cases, not pairwise): \<open>rows\<close> are the rows left. The
  entry of the matrix for the columns \<open>i\<close> and \<open>j\<close> is their Pearson coefficient over
  these rows, the sum of the products of the deviations from the column means over the
  root of the product of the two sums of squared deviations; it is missing when no row is
  left or one of the two columns does not vary. The matrix is symmetric, with \<open>1\<close> on
  the diagonal for every column that varies over the complete cases. Stated for
  \<open>plot_correlation_heatmap\<close> of \<open>final.py\<close>, with and without the population column;
  \<open>analyze_correlation\<close> of \<open>eau_merge.py\<close> computes the matrix without it.
\<close>

theorem correlation_complete_case_symmetric:
  fixes with_pop :: bool and geo_data :: "'p merged_record list"
  defines "n \<equiv> if with_pop then 4 else 3"
    and "rows \<equiv> map (map the)
           (filter (\<lambda>row. None \<notin> set row) (map (heatmap_columns with_pop) geo_data))"
  defines "dev \<equiv> \<lambda>a r. r ! a - (\<Sum>r'\<leftarrow>rows. r' ! a) / real (length rows)"
  defines "cov \<equiv> \<lambda>a b. \<Sum>r\<leftarrow>rows. dev a r * dev b r"
  shows "dropna (map (heatmap_columns with_pop) geo_data) = rows
   \<and> (\<forall>i j. i < n \<and> j < n \<longrightarrow>
         plot_correlation_heatmap with_pop geo_data ! i ! j
         = (if rows = [] \<or> cov i i * cov j j = 0 then None
            else Some (cov i j / sqrt (cov i i * cov j j))))
   \<and> (\<forall>i j. i < n \<and> j < n \<longrightarrow>
         plot_correlation_heatmap with_pop geo_data ! i ! j
         = plot_correlation_heatmap with_pop geo_data ! j ! i)
   \<and> (\<forall>i. i < n \<and> cov i i \<noteq> 0 \<longrightarrow> plot_correlation_heatmap with_pop geo_data ! i ! i = Some 1)
   \<and> analyze_correlation geo_data = plot_correlation_heatmap False geo_data"
proof -
  have d: "dropna (map (heatmap_columns with_pop) geo_data) = rows"
    by (simp only: rows_def dropna_filter)
  have h: "plot_correlation_heatmap with_pop geo_data = corr n rows"
    by (simp only: plot_correlation_heatmap_def d n_def)
  have c: "cov a b = ssqd (column a rows) (column b rows)" for a b
    by (simp only: cov_def dev_def ssqd_column)
  have entry: "plot_correlation_heatmap with_pop geo_data ! i ! j
         = (if rows = [] \<or> cov i i * cov j j = 0 then None
            else Some (cov i j / sqrt (cov i i * cov j j)))" if "i < n" "j < n" for i j
    unfolding h corr_entry_formula [OF that] cov_def dev_def by (rule refl)
  have sym: "plot_correlation_heatmap with_pop geo_data ! i ! j
         = plot_correlation_heatmap with_pop geo_data ! j ! i" if "i < n" "j < n" for i j
    unfolding h by (rule corr_symmetric [OF that])
  have diag: "plot_correlation_heatmap with_pop geo_data ! i ! i = Some 1"
    if "i < n" "cov i i \<noteq> 0" for i
    unfolding h using that(2) unfolding c by (rule corr_unit_diagonal [OF that(1)])
  from d entry sym diag analyze_correlation_heatmap show ?thesis by blast
qed

theorem correlation_complete_case_symmetric_witness:
  "dropna (map (heatmap_columns False) example_merged) = [[1, 0, 10], [0, 1, 12], [1, 1, 14]]
   \<and> plot_correlation_heatmap False example_merged ! 0 ! 1 = Some (- (1 / 2))
   \<and> plot_correlation_heatmap False example_merged ! 1 ! 0 = Some (- (1 / 2))
   \<and> plot_correlation_heatmap False example_merged ! 0 ! 2 = Some 0
   \<and> plot_correlation_heatmap False example_merged ! 0 ! 0 = Some 1
   \<and> analyze_correlation example_merged ! 2 ! 2 = Some 1"
proof -
  note t = correlation_complete_case_symmetric [of False example_merged]
  have rows: "map (map the)
      (filter (\<lambda>row. None \<notin> set row) (map (heatmap_columns False) example_merged))
      = [[1, 0, 10], [0, 1, 12], [1, 1, 14]]"
    using t [THEN conjunct1] example_complete_cases by simp
  note u = t [unfolded rows]
  have s: "sqrt (4 / 9) = 2 / 3"
    by (rule real_sqrt_unique) (simp_all add: power2_eq_square)
  have e01: "plot_correlation_heatmap False example_merged ! 0 ! 1 = Some (- (1 / 2))"
    using u [THEN conjunct2, THEN conjunct1, rule_format, of 0 1] by (simp add: s)
  have e02: "plot_correlation_heatmap False example_merged ! 0 ! 2 = Some 0"
    using u [THEN conjunct2, THEN conjunct1, rule_format, of 0 2] by simp
  have e10: "plot_correlation_heatmap False example_merged ! 1 ! 0 = Some (- (1 / 2))"
    using u [THEN conjunct2, THEN conjunct2, THEN conjunct1, rule_format, of 1 0] e01 by simp
  have e00: "plot_correlation_heatmap False example_merged ! 0 ! 0 = Some 1"
    using u [THEN conjunct2, THEN conjunct2, THEN conjunct2, THEN conjunct1, rule_format, of 0]
    by simp
  have e22: "analyze_correlation example_merged ! 2 ! 2 = Some 1"
    using u [THEN conjunct2, THEN conjunct2, THEN conjunct2, THEN conjunct1, rule_format, of 2]
      u [THEN conjunct2, THEN conjunct2, THEN conjunct2, THEN conjunct2]
    by simp
  from example_complete_cases e01 e10 e02 e00 e22 show ?thesis by simp
qed

section \<open>The rent key of \<open>final.py\<close> is grouped and merged as read\<close>

text \<open>
  Claim C1 says that every join key, on both sides of every merge, and every grouping key
  is normalized before use. \<open>load_rent_data\<close> of \<open>final.py\<close> groups on \<open>INSEE_C\<close> as
  read and \<open>merge_data\<close> joins on it as read, whereas \<open>am.py\<close> and
  \<open>mysql_database.py\<close> normalize the same column first. On the example files, with the
  rent file that writes the code of \<open>01001\<close> as \<open>1001\<close>, \<open>final.py\<close> leaves the mean
  rent of the commune missing and \<open>am.py\<close> finds it.
\<close>

theorem rent_key_merged_as_read:
  "final_main [example_water] example_geo [example_rent_short] None
   = Inr [\<lparr> geo_part = \<lparr> codgeo = CStr ''01001'', properties = () \<rparr>,
             water_part = Some (CStr ''01001'', Some 1, Some 0),
             rent_part = None, pop_part = None \<rparr>,
          \<lparr> geo_part = \<lparr> codgeo = CStr ''01002'', properties = () \<rparr>,
             water_part = Some (CStr ''01002'', Some 0, Some 1),
             rent_part = None, pop_part = None \<rparr>,
          \<lparr> geo_part = \<lparr> codgeo = CStr ''01003'', properties = () \<rparr>,
             water_part = None, rent_part = None, pop_part = None \<rparr>,
          \<lparr> geo_part = \<lparr> codgeo = CStr ''2A004'', properties = () \<rparr>,
             water_part = None, rent_part = Some (CStr ''2A004'', Some 8), pop_part = None \<rparr>]
   \<and> load_rent_data [example_rent_short]
     = Inr [(CStr ''1001'', Some 10), (CStr ''2A004'', Some 8)]
   \<and> preprocess_data example_geo [example_rent_short]
     = Inr [(\<lparr> codgeo = CStr ''01001'', properties = () \<rparr>, Some (CStr ''01001'', Some 10)),
            (\<lparr> codgeo = CStr ''01002'', properties = () \<rparr>, None),
            (\<lparr> codgeo = CStr ''01003'', properties = () \<rparr>, None),
            (\<lparr> codgeo = CStr ''2A004'', properties = () \<rparr>, Some (CStr ''2A004'', Some 8))]
   \<and> mysql_load_rent_data [example_rent_short]
     = Inr [(CStr ''01001'', Some 10), (CStr ''2A004'', Some 8)]"
  by (simp only: example_final_main_short example_load_rent_short example_preprocess_data_short
      example_mysql_rent_short simp_thms)

section \<open>\<open>eau.py\<close> coerces the conformity codes instead of encoding them\<close>

text \<open>
  Claim C5 says that the code \<open>C\<close> is mapped to \<open>1\<close> and every other value to \<open>0\<close> in
  every variant that processes water conformity codes. \<open>clean_data\<close> of \<open>eau.py\<close> calls
  \<open>pd.to_numeric(..., errors="coerce")\<close> on the two columns: the code \<open>C\<close> becomes a
  missing value, and the conformity columns of the commune are missing in the merged
  table, whatever the numeric parser of pandas. The encoder of the other variants gives
  \<open>1\<close>.
\<close>

theorem eau_conformity_code_coerced_to_missing:
  "clean_data parse
     [\<lparr> inseecommune = CStr ''1'', plvconformitebacterio = CStr ''C'',
        plvconformitechimique = CStr ''C'' \<rparr>]
   = [\<lparr> inseecommune = CStr ''00001'', plvconformitebacterio = None,
        plvconformitechimique = None \<rparr>]
   \<and> eau_main parse
       [[\<lparr> inseecommune = CStr ''1'', plvconformitebacterio = CStr ''C'',
           plvconformitechimique = CStr ''C'' \<rparr>]]
       [\<lparr> codgeo = CStr ''00001'', properties = p \<rparr>]
     = Inr [(\<lparr> codgeo = CStr ''00001'', properties = p \<rparr>, Some (CStr ''00001'', None, None))]
   \<and> encode (CStr ''C'') = 1"
proof -
  have gk: "group_keys [CStr ''00001''] = [CStr ''00001'']" by code_simp
  have key: "normalize_key (CStr ''1'') = CStr ''00001''" by code_simp
  have a: "clean_data parse
     [\<lparr> inseecommune = CStr ''1'', plvconformitebacterio = CStr ''C'',
        plvconformitechimique = CStr ''C'' \<rparr>]
   = [\<lparr> inseecommune = CStr ''00001'', plvconformitebacterio = None,
        plvconformitechimique = None \<rparr>]"
    by (simp add: clean_data_def key to_numeric_coerce_C)
  have "eau_main parse
       [[\<lparr> inseecommune = CStr ''1'', plvconformitebacterio = CStr ''C'',
           plvconformitechimique = CStr ''C'' \<rparr>]]
       [\<lparr> codgeo = CStr ''00001'', properties = p \<rparr>]
     = Inr [(\<lparr> codgeo = CStr ''00001'', properties = p \<rparr>, Some (CStr ''00001'', None, None))]"
    by (simp add: eau_main_def load_files_def pd_concat_def a merge_with_geo_data_def
        aggregate_by_commune_def groupby_mean2_def gk nanmean_def merge_left_def keys_clash_def
        text_keys_def int_keys_def left_join_def)
  with a show ?thesis by (simp add: encode_C)
qed

section \<open>The durable store is anchored on the water aggregate\<close>




end
